theory Spec2Isabelle
  imports Complex_Main "HOL-Library.AList" "HOL-Library.List_Lexorder" "HOL-Library.Char_ord"
begin

section \<open>The store: tables, connection, transactions\<close>

text \<open>
  The workbench keeps everything in one SQLite file reached through Python's
  \<^verbatim>\<open>sqlite3\<close> module. The model keeps the tables the verified services read and
  write, with the columns those services use. Identifiers produced by
  \<^verbatim>\<open>uuid4()\<close> are natural numbers drawn from a counter; Python floats are
  real numbers (exact arithmetic); the timestamp columns filled from
  \<^verbatim>\<open>datetime.now()\<close> are left out; a trade date \<^verbatim>\<open>YYYY-MM-DD\<close> is the
  number YYYYMMDD, whose numeric order is the text order SQLite sorts by.
\<close>

type_synonym uuid = nat

datatype error = ValueError string | KeyError string | ZeroDivisionError string

record order_draft =
  draft_id :: uuid
  d_portfolio_id :: uuid
  d_symbol :: string
  d_exchange :: string
  d_side :: string
  d_price :: "real option"
  d_qty :: int

record sim_trade =
  trade_id :: uuid
  t_order_id :: uuid
  t_portfolio_id :: uuid
  t_symbol :: string
  t_exchange :: string
  t_side :: string
  fill_price :: real
  fill_qty :: int
  fee :: real
  slippage :: real

record sim_order =
  order_id :: uuid
  o_portfolio_id :: uuid
  o_status :: string
  draft_ids :: "uuid list"
  filled_qty :: int
  avg_fill_price :: "real option"
  fee_total :: real
  slippage_total :: real

record risk_item =
  code :: string
  level :: string
  item_draft_id :: "uuid option"

record risk_check_row =
  rc_status :: string
  rc_items :: "risk_item list"
  rc_ruleset_version :: string
  input_draft_ids :: "uuid list"

record audit_row =
  audit_id :: uuid
  actor :: string
  action :: string
  entity_type :: string
  entity_id :: uuid

record bar =
  b_symbol :: string
  b_exchange :: string
  trade_date :: nat
  adj :: string
  close :: "real option"
  amount :: "real option"
  pre_close :: "real option"

record trade_plan =
  plan_id :: uuid
  p_symbol :: string
  p_exchange :: string
  plan_version :: int

record score_row =
  score_id :: uuid
  s_symbol :: string
  s_exchange :: string
  s_trade_date :: nat
  s_score_total :: real
  s_reasons :: "string list"

type_synonym position_key = "uuid \<times> string \<times> string"

record db =
  portfolio_accounts :: "(uuid \<times> real) list"
  positions :: "(position_key \<times> (int \<times> real)) list"
  order_drafts :: "order_draft list"
  risk_check_results :: "(uuid \<times> risk_check_row) list"
  sim_trades :: "sim_trade list"
  sim_orders :: "sim_order list"
  audit_log :: "audit_row list"
  bars_daily :: "bar list"
  trade_plans :: "trade_plan list"
  score_snapshots :: "score_row list"

text \<open>
  A connection in the module's default (deferred) mode: a data-changing statement
  works on the connection's own view \<open>cur\<close> and opens a transaction if none is open;
  \<open>commit\<close> makes the view durable, \<open>rollback\<close> throws the pending changes away.
  \<^verbatim>\<open>with conn:\<close> does nothing on entry, commits when its body ends normally and
  rolls back when the body raises. \<open>snapshots\<close> lists the durable states in the
  order the commits produced them: these are the states another connection can
  observe.
\<close>

record conn =
  committed :: db
  cur :: db
  snapshots :: "db list"
  uuid_next :: nat

definition execute :: "(db \<Rightarrow> db) \<Rightarrow> conn \<Rightarrow> conn" where
  "execute stmt c = c\<lparr>cur := stmt (cur c)\<rparr>"

definition commit :: "conn \<Rightarrow> conn" where
  "commit c = c\<lparr>committed := cur c, snapshots := snapshots c @ [cur c]\<rparr>"

definition rollback :: "conn \<Rightarrow> conn" where
  "rollback c = c\<lparr>cur := committed c\<rparr>"

definition uuid4 :: "conn \<Rightarrow> uuid \<times> conn" where
  "uuid4 c = (uuid_next c, c\<lparr>uuid_next := Suc (uuid_next c)\<rparr>)"

definition connect :: "db \<Rightarrow> nat \<Rightarrow> conn" where
  "connect d n = \<lparr>committed = d, cur = d, snapshots = [], uuid_next = n\<rparr>"

subsection \<open>Latest close\<close>

text \<open>
  \<^verbatim>\<open>SELECT close FROM bars_daily WHERE symbol=? AND exchange=? AND adj='RAW'
  ORDER BY trade_date DESC LIMIT 1\<close>: the row of the greatest trade date (the
  primary key makes it unique), and None when there is no row or its close is NULL.
\<close>

fun latest_bar :: "bar list \<Rightarrow> bar option" where
  "latest_bar [] = None"
| "latest_bar (b # bs) =
     (case latest_bar bs of
        None \<Rightarrow> Some b
      | Some b' \<Rightarrow> if trade_date b' > trade_date b then Some b' else Some b)"

definition bars_of :: "db \<Rightarrow> string \<Rightarrow> string \<Rightarrow> string \<Rightarrow> bar list" where
  "bars_of d smb exch a =
     filter (\<lambda>b. b_symbol b = smb \<and> b_exchange b = exch \<and> adj b = a) (bars_daily d)"

definition latest_close :: "db \<Rightarrow> string \<Rightarrow> string \<Rightarrow> real option" where
  "latest_close d smb exch =
     (case latest_bar (bars_of d smb exch ''RAW'') of
        None \<Rightarrow> None
      | Some b \<Rightarrow> close b)"

section \<open>PortfolioRepo\<close>

definition get_cash :: "conn \<Rightarrow> uuid \<Rightarrow> error + real" where
  "get_cash c pid =
     (case map_of (portfolio_accounts (cur c)) pid of
        None \<Rightarrow> Inl (KeyError ''portfolio not found'')
      | Some v \<Rightarrow> Inr v)"

definition update_cash :: "uuid \<Rightarrow> real \<Rightarrow> db \<Rightarrow> db" where
  "update_cash pid v d =
     d\<lparr>portfolio_accounts :=
         map (\<lambda>(p, old). if p = pid then (p, v) else (p, old)) (portfolio_accounts d)\<rparr>"

definition set_cash :: "uuid \<Rightarrow> real \<Rightarrow> conn \<Rightarrow> conn" where
  "set_cash pid v c = commit (execute (update_cash pid v) c)"

definition get_position :: "conn \<Rightarrow> uuid \<Rightarrow> string \<Rightarrow> string \<Rightarrow> (int \<times> real) option" where
  "get_position c pid smb exch = map_of (positions (cur c)) (pid, smb, exch)"

definition upsert_position :: "uuid \<Rightarrow> string \<Rightarrow> string \<Rightarrow> int \<Rightarrow> real \<Rightarrow> conn \<Rightarrow> conn" where
  "upsert_position pid smb exch q a c =
     commit (execute (\<lambda>d. d\<lparr>positions := AList.update (pid, smb, exch) (q, a) (positions d)\<rparr>) c)"

definition delete_position :: "uuid \<Rightarrow> string \<Rightarrow> string \<Rightarrow> conn \<Rightarrow> conn" where
  "delete_position pid smb exch c =
     commit (execute (\<lambda>d. d\<lparr>positions := AList.delete (pid, smb, exch) (positions d)\<rparr>) c)"

section \<open>SimService\<close>

record sim_service =
  fee_rate :: real
  slippage_rate :: real

definition default_sim :: sim_service where
  "default_sim = \<lparr>fee_rate = 3 / 10000, slippage_rate = 5 / 10000\<rparr>"

definition apply_position ::
  "uuid \<Rightarrow> string \<Rightarrow> string \<Rightarrow> string \<Rightarrow> int \<Rightarrow> real \<Rightarrow> real \<Rightarrow> real \<Rightarrow> conn \<Rightarrow> (error + unit) \<times> conn" where
  "apply_position pid smb exch side q fp fe sl c =
     (let pos = get_position c pid smb exch;
          old_qty = (case pos of Some p \<Rightarrow> fst p | None \<Rightarrow> 0);
          old_avg = (case pos of Some p \<Rightarrow> snd p | None \<Rightarrow> 0)
      in if side = ''BUY'' then
           (let new_qty = old_qty + q;
                new_cost_total = old_avg * real_of_int old_qty + fp * real_of_int q + fe + sl;
                new_avg = (if new_qty \<noteq> 0 then new_cost_total / real_of_int new_qty else 0)
            in (Inr (), upsert_position pid smb exch new_qty new_avg c))
         else
           (let new_qty = old_qty - q
            in if new_qty < 0 then (Inl (ValueError ''position would go negative''), c)
               else if new_qty = 0 then (Inr (), delete_position pid smb exch c)
               else (Inr (), upsert_position pid smb exch new_qty old_avg c)))"

record fill_acc =
  acc_cash :: real
  total_fee :: real
  total_slip :: real
  filled_qty_total :: int
  fill_value_total :: real
  trades :: "sim_trade list"

text \<open>The running totals as \<^verbatim>\<open>confirm\<close> initialises them before the loop.\<close>

definition fill_acc0 :: "real \<Rightarrow> fill_acc" where
  "fill_acc0 cash = \<lparr>acc_cash = cash, total_fee = 0, total_slip = 0,
                      filled_qty_total = 0, fill_value_total = 0, trades = []\<rparr>"

text \<open>The body of the loop over the draft rows: one leg.\<close>

definition confirm_leg ::
  "sim_service \<Rightarrow> uuid \<Rightarrow> uuid \<Rightarrow> order_draft \<Rightarrow> fill_acc \<Rightarrow> conn \<Rightarrow> (error + fill_acc) \<times> conn" where
  "confirm_leg svc oid pid d acc c =
     (case latest_close (cur c) (d_symbol d) (d_exchange d) of
        None \<Rightarrow> (Inl (ValueError (''no latest price for '' @ d_symbol d @ ''.'' @ d_exchange d)), c)
      | Some base_price \<Rightarrow>
          (let q = d_qty d;
               fp = (case d_price d of Some p \<Rightarrow> p | None \<Rightarrow> base_price);
               sl = base_price * slippage_rate svc * real_of_int q;
               fe = fp * real_of_int q * fee_rate svc;
               cash' = (if d_side d = ''BUY'' then acc_cash acc - (fp * real_of_int q + fe + sl)
                        else acc_cash acc + (fp * real_of_int q - fe - sl));
               (tid, c1) = uuid4 c;
               tr = \<lparr>trade_id = tid, t_order_id = oid, t_portfolio_id = pid,
                     t_symbol = d_symbol d, t_exchange = d_exchange d, t_side = d_side d,
                     fill_price = fp, fill_qty = q, fee = fe, slippage = sl\<rparr>;
               c2 = execute (\<lambda>s. s\<lparr>sim_trades := sim_trades s @ [tr]\<rparr>) c1
           in case apply_position pid (d_symbol d) (d_exchange d) (d_side d) q fp fe sl c2 of
                (Inl e, c3) \<Rightarrow> (Inl e, c3)
              | (Inr u, c3) \<Rightarrow>
                  (Inr \<lparr>acc_cash = cash', total_fee = total_fee acc + fe,
                        total_slip = total_slip acc + sl,
                        filled_qty_total = filled_qty_total acc + q,
                        fill_value_total = fill_value_total acc + fp * real_of_int q,
                        trades = trades acc @ [tr]\<rparr>, c3)))"

text \<open>The loop: a leg that raises ends it, with the connection as that leg left it.\<close>

fun confirm_legs ::
  "sim_service \<Rightarrow> uuid \<Rightarrow> uuid \<Rightarrow> order_draft list \<Rightarrow> fill_acc \<Rightarrow> conn \<Rightarrow> (error + fill_acc) \<times> conn" where
  "confirm_legs svc oid pid [] acc c = (Inr acc, c)"
| "confirm_legs svc oid pid (d # ds) acc c =
     (case confirm_leg svc oid pid d acc c of
        (Inl e, c') \<Rightarrow> (Inl e, c')
      | (Inr acc', c') \<Rightarrow> confirm_legs svc oid pid ds acc' c')"

record confirm_result =
  r_order_id :: uuid
  r_status :: string
  r_filled_qty :: int
  r_avg_fill_price :: "real option"
  r_fee_total :: real
  r_slippage_total :: real
  r_trades :: "sim_trade list"
  r_cash :: real

definition confirm ::
  "sim_service \<Rightarrow> uuid \<Rightarrow> order_draft list \<Rightarrow> uuid \<Rightarrow> conn \<Rightarrow> (error + confirm_result) \<times> conn" where
  "confirm svc pid draft_rows riskcheck_id c =
     (if draft_rows = [] then (Inl (ValueError ''draft_rows empty''), c)
      else case map_of (risk_check_results (cur c)) riskcheck_id of
        None \<Rightarrow> (Inl (ValueError ''riskcheck_id not found''), c)
      | Some row \<Rightarrow>
          if rc_status row = ''FAIL'' then (Inl (ValueError ''risk check failed''), c)
          else (case get_cash c pid of
            Inl e \<Rightarrow> (Inl e, c)
          | Inr cash \<Rightarrow>
              (let (oid, c1) = uuid4 c
               in case confirm_legs svc oid pid draft_rows (fill_acc0 cash) c1 of
                    (Inl e, c2) \<Rightarrow> (Inl e, rollback c2)
                  | (Inr acc, c2) \<Rightarrow>
                      (let avg = (if filled_qty_total acc \<noteq> 0
                                  then Some (fill_value_total acc / real_of_int (filled_qty_total acc))
                                  else None);
                           ord = \<lparr>order_id = oid, o_portfolio_id = pid, o_status = ''FILLED'',
                                  draft_ids = map draft_id draft_rows,
                                  filled_qty = filled_qty_total acc, avg_fill_price = avg,
                                  fee_total = total_fee acc, slippage_total = total_slip acc\<rparr>;
                           c3 = execute (\<lambda>s. s\<lparr>sim_orders := sim_orders s @ [ord]\<rparr>) c2;
                           c4 = set_cash pid (acc_cash acc) c3;
                           c5 = commit c4
                       in (Inr \<lparr>r_order_id = oid, r_status = ''FILLED'',
                                r_filled_qty = filled_qty_total acc, r_avg_fill_price = avg,
                                r_fee_total = total_fee acc, r_slippage_total = total_slip acc,
                                r_trades = trades acc, r_cash = acc_cash acc\<rparr>, c5)))))"

section \<open>AuditLogger and the sim/confirm handler\<close>

text \<open>
  \<^verbatim>\<open>AuditLogger.log\<close> inserts one row inside its own \<^verbatim>\<open>with conn:\<close>. The JSON
  snapshots and version stamps of the row are left out.
\<close>

definition AuditLogger_log :: "string \<Rightarrow> string \<Rightarrow> string \<Rightarrow> uuid \<Rightarrow> conn \<Rightarrow> uuid \<times> conn" where
  "AuditLogger_log who act etype eid c =
     (let (aid, c1) = uuid4 c;
          row = \<lparr>audit_id = aid, actor = who, action = act, entity_type = etype, entity_id = eid\<rparr>
      in (aid, commit (execute (\<lambda>s. s\<lparr>audit_log := audit_log s @ [row]\<rparr>) c1)))"

text \<open>
  \<^verbatim>\<open>OrderDraftRepo.get_many\<close>: the drafts whose id is among the given ones, in
  table order.
\<close>

definition get_many :: "conn \<Rightarrow> uuid list \<Rightarrow> order_draft list" where
  "get_many c ids =
     (if ids = [] then [] else filter (\<lambda>d. draft_id d \<in> set ids) (order_drafts (cur c)))"

text \<open>
  What the handler answers: the success envelope, an error envelope (code, message,
  HTTP status), or an exception it does not catch. Closing a connection discards
  what it has not committed.
\<close>

datatype 'a response = is_ok: ApiOk 'a | ApiErr string string nat | Raised error

definition conn_close :: "conn \<Rightarrow> conn" where
  "conn_close c = rollback c"

definition sim_confirm :: "sim_service \<Rightarrow> uuid list \<Rightarrow> uuid option \<Rightarrow> conn \<Rightarrow> confirm_result response \<times> conn" where
  "sim_confirm svc ids riskcheck_id c =
     (case riskcheck_id of
        None \<Rightarrow> (ApiErr ''VALIDATION_ERROR'' ''riskcheck_id is required'' 400, c)
      | Some rid \<Rightarrow>
          apsnd conn_close
            (let drafts = get_many c ids
             in if drafts = [] then (ApiErr ''VALIDATION_ERROR'' ''no drafts found'' 400, c)
                else
                  (let portfolio_id = d_portfolio_id (hd drafts)
                   in if list_ex (\<lambda>d. d_portfolio_id d \<noteq> portfolio_id) drafts
                      then (ApiErr ''VALIDATION_ERROR'' ''drafts must belong to the same portfolio'' 400, c)
                      else
                        (case confirm svc portfolio_id drafts rid c of
                           (Inl (ValueError m), c') \<Rightarrow> (ApiErr ''RISK_CHECK_FAIL'' m 409, c')
                         | (Inl e, c') \<Rightarrow> (Raised e, c')
                         | (Inr result, c') \<Rightarrow>
                             (ApiOk result,
                              snd (AuditLogger_log ''user'' ''sim.confirm'' ''sim_order''
                                     (r_order_id result) c'))))))"

text \<open>
  In a database state, every audit row of a \<^verbatim>\<open>sim.confirm\<close> names an order whose
  row is there; and the same for all states of a connection.
\<close>

definition audited_order_committed :: "db \<Rightarrow> bool" where
  "audited_order_committed s =
     list_all (\<lambda>a. action a \<noteq> ''sim.confirm'' \<or> entity_id a \<in> order_id ` set (sim_orders s))
       (audit_log s)"

definition audit_inv :: "conn \<Rightarrow> bool" where
  "audit_inv c =
     (audited_order_committed (cur c) \<and> audited_order_committed (committed c) \<and>
      list_all audited_order_committed (snapshots c))"

section \<open>PlansRepo\<close>

text \<open>
  \<^verbatim>\<open>_next_version\<close>: \<^verbatim>\<open>SELECT MAX(plan_version)\<close> over the plans of the
  instrument, 0 when there is none, plus one. \<^verbatim>\<open>create\<close> draws the plan id, reads
  the next version and inserts the row in its own transaction; the JSON columns of
  the row are left out.
\<close>

definition plans_of :: "db \<Rightarrow> string \<Rightarrow> string \<Rightarrow> trade_plan list" where
  "plans_of d smb exch = filter (\<lambda>p. p_symbol p = smb \<and> p_exchange p = exch) (trade_plans d)"

definition next_version :: "conn \<Rightarrow> string \<Rightarrow> string \<Rightarrow> int" where
  "next_version c smb exch =
     (case map plan_version (plans_of (cur c) smb exch) of
        [] \<Rightarrow> 0
      | v # vs \<Rightarrow> fold max vs v) + 1"

definition create :: "string \<Rightarrow> string \<Rightarrow> conn \<Rightarrow> uuid \<times> conn" where
  "create smb exch c =
     (let (pid, c1) = uuid4 c;
          version = next_version c1 smb exch;
          row = \<lparr>plan_id = pid, p_symbol = smb, p_exchange = exch, plan_version = version\<rparr>
      in (pid, commit (execute (\<lambda>s. s\<lparr>trade_plans := trade_plans s @ [row]\<rparr>) c1)))"

text \<open>A sequence of \<^verbatim>\<open>create\<close> calls, and the versions stored for an instrument in insertion order.\<close>

fun create_all :: "(string \<times> string) list \<Rightarrow> conn \<Rightarrow> conn" where
  "create_all [] c = c"
| "create_all ((smb, exch) # rs) c = create_all rs (snd (create smb exch c))"

definition versions_of :: "db \<Rightarrow> string \<Rightarrow> string \<Rightarrow> int list" where
  "versions_of d smb exch = map plan_version (plans_of d smb exch)"

section \<open>BarsRepo and the scoring service\<close>

text \<open>
  \<^verbatim>\<open>BarsRepo.list_bars\<close>: the newest \<open>limit\<close> bars of the instrument, returned oldest
  first.
\<close>

definition list_bars :: "conn \<Rightarrow> string \<Rightarrow> string \<Rightarrow> string \<Rightarrow> nat \<Rightarrow> bar list" where
  "list_bars c smb exch a limit =
     rev (take limit (rev (sort_key trade_date (bars_of (cur c) smb exch a))))"

text \<open>
  Python's \<^verbatim>\<open>xs[-k:]\<close> and \<^verbatim>\<open>xs[-k]\<close> (the latter for \<open>1 \<le> k \<le> len xs\<close>, which
  the 60-bar guard of \<^verbatim>\<open>calc\<close> ensures where it is used), and the numpy
  operations on float arrays, over the reals: mean, population standard deviation and
  successive differences.
\<close>

definition py_tail :: "nat \<Rightarrow> 'a list \<Rightarrow> 'a list" where
  "py_tail k xs = drop (length xs - k) xs"

definition py_from_end :: "'a list \<Rightarrow> nat \<Rightarrow> 'a" where
  "py_from_end xs k = xs ! (length xs - k)"

definition np_mean :: "real list \<Rightarrow> real" where
  "np_mean xs = sum_list xs / real (length xs)"

definition np_std :: "real list \<Rightarrow> real" where
  "np_std xs = sqrt (np_mean (map (\<lambda>x. (x - np_mean xs)\<^sup>2) xs))"

definition np_diff :: "real list \<Rightarrow> real list" where
  "np_diff xs = map (\<lambda>(a, b). b - a) (zip xs (tl xs))"

text \<open>The dictionaries with fixed keys that \<^verbatim>\<open>calc\<close> builds, and its result.\<close>

record score_metrics =
  last_close :: real
  ma20 :: real
  ma60 :: real
  ret20 :: real
  vol20 :: real
  liq20 :: real

record score_breakdown =
  trend :: real
  momentum :: real
  volatility :: real
  liquidity :: real

record score_result =
  score_total :: real
  breakdown :: score_breakdown
  reasons :: "string list"
  bars_trade_date :: nat
  bars_count :: nat
  metrics :: score_metrics

text \<open>
  The four scoring blocks of \<^verbatim>\<open>ScoringService.calc\<close> (trend, momentum,
  volatility, liquidity): each starts its points at 0, adds to them and appends a
  reason tag for every rule that fires.
\<close>

definition trend_block :: "real \<Rightarrow> real \<Rightarrow> real \<Rightarrow> string list \<Rightarrow> real \<times> string list" where
  "trend_block m_last m_ma20 m_ma60 rs =
     (let trend0 = 0;
          (trend1, rs1) = (if m_last > m_ma20 then (trend0 + 10, rs @ [''price_above_ma20''])
                           else (trend0, rs));
          (trend2, rs2) = (if m_ma20 > m_ma60 then (trend1 + 10, rs1 @ [''ma20_above_ma60''])
                           else (trend1, rs1))
      in if m_last > m_ma60 then (trend2 + 10, rs2 @ [''price_above_ma60'']) else (trend2, rs2))"

definition momentum_block :: "real \<Rightarrow> string list \<Rightarrow> real \<times> string list" where
  "momentum_block m_ret20 rs =
     (let mom0 = 0;
          (mom1, rs1) = (if m_ret20 > 0 then (mom0 + 10, rs @ [''ret20_positive''])
                         else (mom0, rs))
      in if m_ret20 > 1 / 10 then (mom1 + 10, rs1 @ [''ret20_gt_10pct'']) else (mom1, rs1))"

definition volatility_block :: "real \<Rightarrow> string list \<Rightarrow> real \<times> string list" where
  "volatility_block m_vol20 rs =
     (let vol0 = 0
      in if m_vol20 < 3 / 100 then (vol0 + 10, rs @ [''vol20_low''])
         else if m_vol20 < 6 / 100 then (vol0 + 5, rs @ [''vol20_mid''])
         else (vol0, rs))"

definition liquidity_block :: "real \<Rightarrow> string list \<Rightarrow> real \<times> string list" where
  "liquidity_block m_liq20 rs =
     (let liq0 = 0
      in if m_liq20 > 100000000 then (liq0 + 10, rs @ [''liq20_gt_1e8''])
         else if m_liq20 > 20000000 then (liq0 + 5, rs @ [''liq20_gt_2e7''])
         else (liq0, rs))"

text \<open>
  The metrics \<^verbatim>\<open>calc\<close> computes from the bars. A NULL amount counts as 0
  (\<^verbatim>\<open>b.get("amount") or 0.0\<close>). numpy reads a NULL close as NaN, which the reals
  do not have: it is read as 0 here, and what is proved about close values is proved
  for histories whose closes are present.
\<close>

definition bar_metrics :: "bar list \<Rightarrow> score_metrics" where
  "bar_metrics bars =
     (let closes = map (\<lambda>b. case close b of Some v \<Rightarrow> v | None \<Rightarrow> 0) bars;
          amounts = map (\<lambda>b. case amount b of Some v \<Rightarrow> v | None \<Rightarrow> 0) bars
      in \<lparr>last_close = py_from_end closes 1,
          ma20 = np_mean (py_tail 20 closes),
          ma60 = np_mean (py_tail 60 closes),
          ret20 = py_from_end closes 1 / py_from_end closes 21 - 1,
          vol20 = np_std (np_diff (map ln (py_tail 21 closes))),
          liq20 = np_mean (py_tail 20 amounts)\<rparr>)"

text \<open>The score of at least 60 bars, and \<^verbatim>\<open>calc\<close> with its guard.\<close>

definition score_bars :: "bar list \<Rightarrow> score_result" where
  "score_bars bars =
     (let m = bar_metrics bars;
          score0 = 0;
          (trend_pts, rs1) = trend_block (last_close m) (ma20 m) (ma60 m) [];
          score1 = score0 + trend_pts;
          (mom_pts, rs2) = momentum_block (ret20 m) rs1;
          score2 = score1 + mom_pts;
          (vol_pts, rs3) = volatility_block (vol20 m) rs2;
          score3 = score2 + vol_pts;
          (liq_pts, rs4) = liquidity_block (liq20 m) rs3;
          score4 = score3 + liq_pts
      in \<lparr>score_total = max 0 (min 100 (score4 * 2)),
          breakdown = \<lparr>trend = trend_pts, momentum = mom_pts, volatility = vol_pts,
                        liquidity = liq_pts\<rparr>,
          reasons = rs4,
          bars_trade_date = trade_date (last bars),
          bars_count = length bars,
          metrics = m\<rparr>)"

definition calc :: "conn \<Rightarrow> string \<Rightarrow> string \<Rightarrow> string \<Rightarrow> error + score_result" where
  "calc c smb exch a =
     (let bars = list_bars c smb exch a 120
      in if length bars < 60 then Inl (ValueError ''not enough bars; ingest more history'')
         else Inr (score_bars bars))"

text \<open>
  \<^verbatim>\<open>ScoresRepo.insert\<close>, \<^verbatim>\<open>calc_and_persist\<close> and the handler of
  \<^verbatim>\<open>POST /api/v1/scores/calc\<close>. \<^verbatim>\<open>str.zfill\<close> pads with zeros on the left, after
  a leading sign; \<^verbatim>\<open>x or default\<close> takes the default for a missing or empty value.
\<close>

definition zfill :: "nat \<Rightarrow> string \<Rightarrow> string" where
  "zfill w s =
     (if w \<le> length s then s
      else case s of
        [] \<Rightarrow> replicate w (CHR ''0'')
      | ch # rest \<Rightarrow>
          if ch = CHR ''+'' \<or> ch = CHR ''-''
          then ch # replicate (w - length s) (CHR ''0'') @ rest
          else replicate (w - length s) (CHR ''0'') @ s)"

record score_payload =
  p_score_id :: uuid
  p_result :: score_result
  p_ruleset_version :: string

definition RULESET_VERSION :: string where
  "RULESET_VERSION = ''score/tech_v1''"

definition ScoresRepo_insert :: "string \<Rightarrow> string \<Rightarrow> score_result \<Rightarrow> conn \<Rightarrow> uuid \<times> conn" where
  "ScoresRepo_insert smb exch res c =
     (let (sid, c1) = uuid4 c;
          row = \<lparr>score_id = sid, s_symbol = smb, s_exchange = exch,
                 s_trade_date = bars_trade_date res, s_score_total = score_total res,
                 s_reasons = reasons res\<rparr>
      in (sid, commit (execute (\<lambda>s. s\<lparr>score_snapshots := score_snapshots s @ [row]\<rparr>) c1)))"

definition calc_and_persist ::
  "conn \<Rightarrow> string \<Rightarrow> string \<Rightarrow> string \<Rightarrow> (error + score_payload) \<times> conn" where
  "calc_and_persist c smb exch a =
     (case calc c smb exch a of
        Inl e \<Rightarrow> (Inl e, c)
      | Inr res \<Rightarrow>
          (let (sid, c1) = ScoresRepo_insert smb exch res c
           in (Inr \<lparr>p_score_id = sid, p_result = res, p_ruleset_version = RULESET_VERSION\<rparr>, c1)))"

definition or_default :: "string option \<Rightarrow> string \<Rightarrow> string" where
  "or_default v dflt = (case v of None \<Rightarrow> dflt | Some x \<Rightarrow> if x = [] then dflt else x)"

definition scores_calc ::
  "string option \<Rightarrow> string option \<Rightarrow> string option \<Rightarrow> conn \<Rightarrow> score_payload response \<times> conn" where
  "scores_calc symbol exchange adj_opt c =
     (let a = or_default adj_opt ''RAW''
      in if or_default symbol [] = [] \<or> or_default exchange [] = []
         then (ApiErr ''VALIDATION_ERROR'' ''symbol and exchange are required'' 400, c)
         else
           apsnd conn_close
             (case calc_and_persist c (zfill 6 (or_default symbol [])) (or_default exchange []) a of
                (Inl (ValueError m), c') \<Rightarrow> (ApiErr ''DATA_NOT_READY'' m 409, c')
              | (Inl e, c') \<Rightarrow> (Raised e, c')
              | (Inr result, c') \<Rightarrow>
                  (ApiOk result,
                   snd (AuditLogger_log ''user'' ''score.calc'' ''score'' (p_score_id result) c'))))"

section \<open>The scoring rules as the specification words them\<close>






section \<open>RebalanceService\<close>

text \<open>
  A target as the request gives it (each key may be missing), a suggested order, and
  the result of \<^verbatim>\<open>suggest\<close>. The lot size comes from the environment (default 100).
\<close>

record target =
  tg_symbol :: "string option"
  tg_exchange :: "string option"
  tg_weight :: "real option"

record rebalance_order =
  ro_symbol :: string
  ro_exchange :: string
  ro_side :: string
  ro_qty :: int
  ro_price :: real
  estimated_value :: real

record rebalance_result =
  rr_portfolio_id :: uuid
  rr_total_equity :: real
  rr_cash_before :: real
  rr_cash_after_est :: real
  rr_cash_reserve_ratio :: real
  rr_orders :: "rebalance_order list"
  rr_missing_prices :: "string list"

record rebalance_service =
  rb_lot_size :: int

definition default_rebalance :: rebalance_service where
  "default_rebalance = \<lparr>rb_lot_size = 100\<rparr>"

text \<open>
  \<^verbatim>\<open>int(x)\<close> on a float truncates toward zero. The label of a missing price is
  \<^verbatim>\<open>f"{sym}.{exch}"\<close>. The rows \<^verbatim>\<open>SELECT symbol, exchange, qty FROM positions WHERE
  portfolio_id=?\<close> are taken in table order.
\<close>

definition py_int :: "real \<Rightarrow> int" where
  "py_int x = (if 0 \<le> x then \<lfloor>x\<rfloor> else \<lceil>x\<rceil>)"

definition price_label :: "string \<Rightarrow> string \<Rightarrow> string" where
  "price_label smb exch = smb @ ''.'' @ exch"

definition position_rows :: "db \<Rightarrow> uuid \<Rightarrow> (string \<times> string \<times> int) list" where
  "position_rows d pid =
     map (\<lambda>((p, s, e), (q, a)). (s, e, q)) (filter (\<lambda>((p, s, e), v). p = pid) (positions d))"

text \<open>
  First loop: mark the positions to market, remembering the prices found and the
  labels of those missing. Second loop: keep the targets with a symbol, an exchange
  and a positive weight, summing the weights.
\<close>

fun value_positions ::
  "db \<Rightarrow> (string \<times> string \<times> int) list \<Rightarrow>
   ((string \<times> string) \<rightharpoonup> real) \<times> string list \<times> real \<Rightarrow>
   ((string \<times> string) \<rightharpoonup> real) \<times> string list \<times> real" where
  "value_positions d [] st = st"
| "value_positions d ((s, e, q) # rows) (px_map, missing, mv) =
     (case latest_close d s e of
        None \<Rightarrow> value_positions d rows (px_map, missing @ [price_label s e], mv)
      | Some p \<Rightarrow> value_positions d rows (px_map((s, e) \<mapsto> p), missing, mv + real_of_int q * p))"

fun clean_targets ::
  "target list \<Rightarrow> (string \<times> string \<times> real) list \<times> real \<Rightarrow>
   (string \<times> string \<times> real) list \<times> real" where
  "clean_targets [] st = st"
| "clean_targets (t # ts) (cleaned, wsum) =
     (let s = zfill 6 (or_default (tg_symbol t) []);
          e = or_default (tg_exchange t) [];
          w = (case tg_weight t of None \<Rightarrow> 0 | Some x \<Rightarrow> x)
      in if s = [] \<or> e = [] \<or> w \<le> 0 then clean_targets ts (cleaned, wsum)
         else clean_targets ts (cleaned @ [(s, e, w)], wsum + w))"

text \<open>
  Third loop, one target: find the price (cached, or queried and then cached), skip
  a move below one lot, and turn the value gap into a lot-aligned BUY or a SELL
  capped by the held quantity. Python raises on the float division when the price is
  0 and on the floor division when the lot size is 0.
\<close>

record plan_state =
  ps_px_map :: "(string \<times> string) \<rightharpoonup> real"
  ps_missing :: "string list"
  ps_orders :: "rebalance_order list"
  ps_cash_after :: real

definition plan_target ::
  "rebalance_service \<Rightarrow> db \<Rightarrow> real \<Rightarrow> ((string \<times> string) \<rightharpoonup> int) \<Rightarrow>
   string \<times> string \<times> real \<Rightarrow> plan_state \<Rightarrow> error + plan_state" where
  "plan_target svc d investable pos_qty_map t st =
     (let s = fst t; e = fst (snd t); weight = snd (snd t);
          found = (case ps_px_map st (s, e) of
                     Some p \<Rightarrow> Some (p, ps_px_map st)
                   | None \<Rightarrow>
                       (case latest_close d s e of
                          None \<Rightarrow> None
                        | Some p2 \<Rightarrow> Some (p2, (ps_px_map st)((s, e) \<mapsto> p2))))
      in case found of
           None \<Rightarrow> Inr (st\<lparr>ps_missing := ps_missing st @ [price_label s e]\<rparr>)
         | Some (px, px_map') \<Rightarrow>
             (let st1 = st\<lparr>ps_px_map := px_map'\<rparr>;
                  target_value = investable * weight;
                  cur_qty = (case pos_qty_map (s, e) of Some q \<Rightarrow> q | None \<Rightarrow> 0);
                  cur_value = real_of_int cur_qty * px;
                  delta = target_value - cur_value
              in if \<bar>delta\<bar> < px * real_of_int (rb_lot_size svc) then Inr st1
                 else if px = 0 then Inl (ZeroDivisionError ''float division by zero'')
                 else if rb_lot_size svc = 0
                   then Inl (ZeroDivisionError ''integer division or modulo by zero'')
                 else if delta > 0 then
                   (let buy_qty = (py_int (delta / px) div rb_lot_size svc) * rb_lot_size svc
                    in if buy_qty \<le> 0 then Inr st1
                       else Inr (st1\<lparr>ps_orders := ps_orders st1 @
                                   [\<lparr>ro_symbol = s, ro_exchange = e, ro_side = ''BUY'',
                                     ro_qty = buy_qty, ro_price = px,
                                     estimated_value = real_of_int buy_qty * px\<rparr>],
                                 ps_cash_after := ps_cash_after st1 - real_of_int buy_qty * px\<rparr>))
                 else
                   (let sell_qty = min ((py_int ((- delta) / px) div rb_lot_size svc) * rb_lot_size svc)
                                       cur_qty
                    in if sell_qty \<le> 0 then Inr st1
                       else Inr (st1\<lparr>ps_orders := ps_orders st1 @
                                   [\<lparr>ro_symbol = s, ro_exchange = e, ro_side = ''SELL'',
                                     ro_qty = sell_qty, ro_price = px,
                                     estimated_value = real_of_int sell_qty * px\<rparr>],
                                 ps_cash_after := ps_cash_after st1 + real_of_int sell_qty * px\<rparr>))))"

fun plan_targets ::
  "rebalance_service \<Rightarrow> db \<Rightarrow> real \<Rightarrow> ((string \<times> string) \<rightharpoonup> int) \<Rightarrow>
   (string \<times> string \<times> real) list \<Rightarrow> plan_state \<Rightarrow> error + plan_state" where
  "plan_targets svc d investable pos_qty_map [] st = Inr st"
| "plan_targets svc d investable pos_qty_map (t # ts) st =
     (case plan_target svc d investable pos_qty_map t st of
        Inl err \<Rightarrow> Inl err
      | Inr st' \<Rightarrow> plan_targets svc d investable pos_qty_map ts st')"

definition suggest ::
  "rebalance_service \<Rightarrow> conn \<Rightarrow> uuid \<Rightarrow> target list \<Rightarrow> real \<Rightarrow> error + rebalance_result" where
  "suggest svc c pid targets ratio =
     (case get_cash c pid of
        Inl err \<Rightarrow> Inl err
      | Inr cash \<Rightarrow>
          (let rows = position_rows (cur c) pid;
               (px_map, missing, mv_positions) = value_positions (cur c) rows (Map.empty, [], 0);
               total_equity = cash + mv_positions;
               investable = total_equity * (1 - ratio);
               (cleaned, wsum) = clean_targets targets ([], 0)
           in if wsum \<le> 0 then Inl (ValueError ''targets empty or weights invalid'')
              else
                (let normed = map (\<lambda>(s, e, w). (s, e, w / wsum)) cleaned;
                     pos_qty_map = map_of (rev (map (\<lambda>(s, e, q). ((s, e), q)) rows))
                 in case plan_targets svc (cur c) investable pos_qty_map normed
                           \<lparr>ps_px_map = px_map, ps_missing = missing, ps_orders = [],
                            ps_cash_after = cash\<rparr> of
                      Inl err \<Rightarrow> Inl err
                    | Inr st \<Rightarrow>
                        Inr \<lparr>rr_portfolio_id = pid, rr_total_equity = total_equity,
                             rr_cash_before = cash, rr_cash_after_est = ps_cash_after st,
                             rr_cash_reserve_ratio = ratio, rr_orders = ps_orders st,
                             rr_missing_prices = sort (remdups (ps_missing st))\<rparr>)))"

section \<open>RiskRulesRepo and RiskService\<close>

text \<open>
  The rule values \<^verbatim>\<open>get_all_rules\<close> returns (environment defaults overlaid by the
  \<^verbatim>\<open>risk_rules\<close> table) are a parameter. Three rule checks read the clock: the
  number of the portfolio's orders created today, the seconds since its last trade
  on a symbol (None when there is none) and the value it traded today. What these
  three queries return is a parameter too; the comparisons and the items built from
  them follow the source. Messages and suggestions of the items are left out.
\<close>

record risk_rules =
  max_position_per_symbol :: real
  min_cash_ratio :: real
  max_order_value :: real
  min_order_value :: real
  price_deviation_limit :: real
  lot_size :: int
  max_orders_per_day :: int
  max_order_frequency_seconds :: int
  max_daily_trading_value :: real

definition default_rules :: risk_rules where
  "default_rules =
     \<lparr>max_position_per_symbol = 25 / 100, min_cash_ratio = 5 / 100, max_order_value = 200000,
      min_order_value = 1000, price_deviation_limit = 3 / 100, lot_size = 100,
      max_orders_per_day = 50, max_order_frequency_seconds = 60,
      max_daily_trading_value = 1000000\<rparr>"

record risk_clock =
  orders_today :: "uuid \<Rightarrow> int"
  last_trade_elapsed :: "uuid \<Rightarrow> string \<Rightarrow> string \<Rightarrow> real option"
  today_value :: "uuid \<Rightarrow> real"

definition quiet_clock :: risk_clock where
  "quiet_clock = \<lparr>orders_today = (\<lambda>p. 0), last_trade_elapsed = (\<lambda>p s e. None),
                   today_value = (\<lambda>p. 0)\<rparr>"

text \<open>\<^verbatim>\<open>str.upper\<close> on ASCII letters.\<close>

definition upper_char :: "char \<Rightarrow> char" where
  "upper_char ch =
     (let n = (of_char ch :: nat) in if 97 \<le> n \<and> n \<le> 122 then char_of (n - 32) else ch)"

definition upper :: "string \<Rightarrow> string" where
  "upper s = map upper_char s"

text \<open>
  The checks of \<^verbatim>\<open>RiskRulesRepo\<close>. \<^verbatim>\<open>check_price_limit\<close> returns None for a
  latest price of 0 or None, reads close and previous close of the newest RAW bar,
  and divides by the previous close, which raises when it is 0.
\<close>

definition check_max_orders_per_day :: "risk_rules \<Rightarrow> risk_clock \<Rightarrow> uuid \<Rightarrow> risk_item option" where
  "check_max_orders_per_day rules clk pid =
     (if orders_today clk pid \<ge> max_orders_per_day rules
      then Some \<lparr>code = ''RISK_MAX_ORDERS_PER_DAY'', level = ''WARN'', item_draft_id = None\<rparr>
      else None)"

definition check_order_frequency ::
  "risk_rules \<Rightarrow> risk_clock \<Rightarrow> uuid \<Rightarrow> string \<Rightarrow> string \<Rightarrow> risk_item option" where
  "check_order_frequency rules clk pid smb exch =
     (case last_trade_elapsed clk pid smb exch of
        None \<Rightarrow> None
      | Some elapsed \<Rightarrow>
          if elapsed < real_of_int (max_order_frequency_seconds rules)
          then Some \<lparr>code = ''RISK_ORDER_FREQUENCY'', level = ''WARN'', item_draft_id = None\<rparr>
          else None)"

definition check_daily_trading_value ::
  "risk_rules \<Rightarrow> risk_clock \<Rightarrow> uuid \<Rightarrow> real \<Rightarrow> risk_item option" where
  "check_daily_trading_value rules clk pid order_value =
     (if today_value clk pid + order_value > max_daily_trading_value rules
      then Some \<lparr>code = ''RISK_DAILY_VALUE_LIMIT'', level = ''WARN'', item_draft_id = None\<rparr>
      else None)"

definition check_price_limit ::
  "db \<Rightarrow> string \<Rightarrow> string \<Rightarrow> string \<Rightarrow> real \<Rightarrow> error + risk_item option" where
  "check_price_limit d smb exch side latest_price =
     (if latest_price = 0 then Inr None
      else case latest_bar (bars_of d smb exch ''RAW'') of
        None \<Rightarrow> Inr None
      | Some b \<Rightarrow>
          (case (close b, pre_close b) of
             (Some current_price, Some pre) \<Rightarrow>
               if pre = 0 then Inl (ZeroDivisionError ''float division by zero'')
               else
                 (let change_pct = (current_price - pre) / pre
                  in if change_pct \<ge> 99 / 1000
                     then Inr (Some \<lparr>code = ''RISK_LIMIT_UP'',
                                      level = (if side = ''SELL'' then ''WARN'' else ''FAIL''),
                                      item_draft_id = None\<rparr>)
                     else if change_pct \<le> - (99 / 1000)
                     then Inr (Some \<lparr>code = ''RISK_LIMIT_DOWN'',
                                      level = (if side = ''BUY'' then ''WARN'' else ''FAIL''),
                                      item_draft_id = None\<rparr>)
                     else Inr None)
           | _ \<Rightarrow> Inr None))"

text \<open>
  The state the loop of \<^verbatim>\<open>RiskService.check\<close> threads through the drafts: the
  items, the status, the simulated cash and quantities, and the price cache. An item
  is appended either with \<^verbatim>\<open>status = "FAIL"\<close> or with
  \<^verbatim>\<open>if status != "FAIL": status = "WARN"\<close>.
\<close>

record loop_state =
  ls_items :: "risk_item list"
  ls_status :: string
  ls_cash_now :: real
  ls_pos_qty_map :: "(string \<times> string) \<rightharpoonup> int"
  ls_price_cache :: "(string \<times> string) \<rightharpoonup> real"

definition fail_with :: "risk_item \<Rightarrow> loop_state \<Rightarrow> loop_state" where
  "fail_with it st = st\<lparr>ls_items := ls_items st @ [it], ls_status := ''FAIL''\<rparr>"

definition warn_with :: "risk_item \<Rightarrow> loop_state \<Rightarrow> loop_state" where
  "warn_with it st =
     st\<lparr>ls_items := ls_items st @ [it],
        ls_status := (if ls_status st \<noteq> ''FAIL'' then ''WARN'' else ls_status st)\<rparr>"

definition draft_item :: "string \<Rightarrow> string \<Rightarrow> order_draft \<Rightarrow> risk_item" where
  "draft_item cd lv d = \<lparr>code = cd, level = lv, item_draft_id = Some (draft_id d)\<rparr>"

definition order_price_of :: "order_draft \<Rightarrow> real \<Rightarrow> real" where
  "order_price_of dr latest = (case d_price dr of Some p \<Rightarrow> p | None \<Rightarrow> latest)"

text \<open>
  The warning checks of one draft, in source order: price deviation, order
  frequency (BUY only), price limit, daily traded value (BUY only), minimum and
  maximum order value. The deviation divides by the latest close, which raises when
  a limit price is given and the close is 0.
\<close>

definition deviation_block :: "risk_rules \<Rightarrow> order_draft \<Rightarrow> real \<Rightarrow> loop_state \<Rightarrow> loop_state" where
  "deviation_block rules dr latest st =
     (if d_price dr \<noteq> None \<and>
         \<bar>order_price_of dr latest - latest\<bar> / latest > price_deviation_limit rules
      then warn_with (draft_item ''RISK_PRICE_DEVIATION'' ''WARN'' dr) st
      else st)"

definition frequency_block ::
  "risk_rules \<Rightarrow> risk_clock \<Rightarrow> uuid \<Rightarrow> order_draft \<Rightarrow> string \<Rightarrow> loop_state \<Rightarrow> loop_state" where
  "frequency_block rules clk pid dr side st =
     (if side = ''BUY'' then
        (case check_order_frequency rules clk pid (d_symbol dr) (d_exchange dr) of
           Some it \<Rightarrow> warn_with it st
         | None \<Rightarrow> st)
      else st)"

definition limit_block :: "risk_item option \<Rightarrow> loop_state \<Rightarrow> loop_state" where
  "limit_block limit_check st =
     (case limit_check of
        Some it \<Rightarrow> if level it = ''FAIL'' then fail_with it st else warn_with it st
      | None \<Rightarrow> st)"

definition daily_value_block ::
  "risk_rules \<Rightarrow> risk_clock \<Rightarrow> uuid \<Rightarrow> string \<Rightarrow> real \<Rightarrow> loop_state \<Rightarrow> loop_state" where
  "daily_value_block rules clk pid side order_value st =
     (if side = ''BUY'' then
        (case check_daily_trading_value rules clk pid order_value of
           Some it \<Rightarrow> warn_with it st
         | None \<Rightarrow> st)
      else st)"

definition order_value_block :: "risk_rules \<Rightarrow> order_draft \<Rightarrow> real \<Rightarrow> loop_state \<Rightarrow> loop_state" where
  "order_value_block rules dr order_value st =
     (let st1 = (if order_value < min_order_value rules
                 then warn_with (draft_item ''RISK_MIN_ORDER_VALUE'' ''WARN'' dr) st
                 else st)
      in if order_value > max_order_value rules
         then warn_with (draft_item ''RISK_MAX_ORDER_VALUE'' ''WARN'' dr) st1
         else st1)"

definition check_order_warnings ::
  "risk_rules \<Rightarrow> risk_clock \<Rightarrow> db \<Rightarrow> uuid \<Rightarrow> order_draft \<Rightarrow> string \<Rightarrow> real \<Rightarrow>
   loop_state \<Rightarrow> error + loop_state" where
  "check_order_warnings rules clk d pid dr side latest st =
     (let order_value = order_price_of dr latest * real_of_int (d_qty dr)
      in if d_price dr \<noteq> None \<and> latest = 0
         then Inl (ZeroDivisionError ''float division by zero'')
         else
           (let st1 = deviation_block rules dr latest st;
                st2 = frequency_block rules clk pid dr side st1
            in case check_price_limit d (d_symbol dr) (d_exchange dr) side latest of
                 Inl err \<Rightarrow> Inl err
               | Inr limit_check \<Rightarrow>
                   Inr (order_value_block rules dr order_value
                          (daily_value_block rules clk pid side order_value
                             (limit_block limit_check st2)))))"

text \<open>
  The simulated fill of one draft: a SELL beyond the simulated quantity fails,
  otherwise it adds cash; a side other than BUY or SELL fails; a BUY fails on
  insufficient cash, then on the cash ratio, then on the position limit.
\<close>

definition check_fill ::
  "risk_rules \<Rightarrow> real \<Rightarrow> order_draft \<Rightarrow> string \<Rightarrow> real \<Rightarrow> loop_state \<Rightarrow> loop_state" where
  "check_fill rules total_equity dr side latest st =
     (let key = (d_symbol dr, d_exchange dr);
          q = d_qty dr;
          order_value = order_price_of dr latest * real_of_int q;
          cur_qty = (case ls_pos_qty_map st key of Some v \<Rightarrow> v | None \<Rightarrow> 0)
      in if side = ''SELL'' then
           (if q > cur_qty
            then fail_with (draft_item ''RISK_SELL_QTY_EXCEEDS_POSITION'' ''FAIL'' dr) st
            else st\<lparr>ls_cash_now := ls_cash_now st + order_value,
                    ls_pos_qty_map := (ls_pos_qty_map st)(key \<mapsto> cur_qty - q)\<rparr>)
         else if side \<noteq> ''BUY''
           then fail_with (draft_item ''RISK_UNSUPPORTED_SIDE'' ''FAIL'' dr) st
         else if order_value > ls_cash_now st
           then fail_with (draft_item ''RISK_INSUFFICIENT_CASH'' ''FAIL'' dr) st
         else
           (let st1 = st\<lparr>ls_cash_now := ls_cash_now st - order_value,
                          ls_pos_qty_map := (ls_pos_qty_map st)(key \<mapsto> cur_qty + q)\<rparr>
            in if total_equity > 0 \<and> ls_cash_now st1 / total_equity < min_cash_ratio rules
               then fail_with (draft_item ''RISK_MIN_CASH_RATIO'' ''FAIL'' dr) st1
               else if total_equity > 0 \<and>
                       real_of_int (cur_qty + q) * latest / total_equity
                         > max_position_per_symbol rules
               then fail_with (draft_item ''RISK_POSITION_LIMIT'' ''FAIL'' dr) st1
               else st1))"

text \<open>
  One draft: quantity and lot check, latest close through the cache, warning checks,
  simulated fill. \<^verbatim>\<open>qty % lot_size\<close> raises when the lot size is 0.
\<close>

definition check_draft ::
  "risk_rules \<Rightarrow> risk_clock \<Rightarrow> db \<Rightarrow> uuid \<Rightarrow> real \<Rightarrow> order_draft \<Rightarrow> loop_state \<Rightarrow>
   error + loop_state" where
  "check_draft rules clk d pid total_equity dr st =
     (let side = upper (d_side dr); q = d_qty dr
      in if q \<le> 0 then Inr (fail_with (draft_item ''RISK_INVALID_QTY'' ''FAIL'' dr) st)
         else if lot_size rules = 0
           then Inl (ZeroDivisionError ''integer division or modulo by zero'')
         else if q mod lot_size rules \<noteq> 0
           then Inr (fail_with (draft_item ''RISK_INVALID_QTY'' ''FAIL'' dr) st)
         else
           (let key = (d_symbol dr, d_exchange dr);
                (latest, st1) =
                  (case ls_price_cache st key of
                     Some p \<Rightarrow> (Some p, st)
                   | None \<Rightarrow>
                       (case latest_close d (d_symbol dr) (d_exchange dr) of
                          Some p \<Rightarrow> (Some p, st\<lparr>ls_price_cache := (ls_price_cache st)(key \<mapsto> p)\<rparr>)
                        | None \<Rightarrow> (None, st)))
            in case latest of
                 None \<Rightarrow> Inr (fail_with (draft_item ''DATA_NOT_READY'' ''FAIL'' dr) st1)
               | Some px \<Rightarrow>
                   (case check_order_warnings rules clk d pid dr side px st1 of
                      Inl err \<Rightarrow> Inl err
                    | Inr st2 \<Rightarrow> Inr (check_fill rules total_equity dr side px st2))))"

fun check_drafts ::
  "risk_rules \<Rightarrow> risk_clock \<Rightarrow> db \<Rightarrow> uuid \<Rightarrow> real \<Rightarrow> order_draft list \<Rightarrow> loop_state \<Rightarrow>
   error + loop_state" where
  "check_drafts rules clk d pid total_equity [] st = Inr st"
| "check_drafts rules clk d pid total_equity (dr # drs) st =
     (case check_draft rules clk d pid total_equity dr st of
        Inl err \<Rightarrow> Inl err
      | Inr st' \<Rightarrow> check_drafts rules clk d pid total_equity drs st')"

text \<open>
  \<^verbatim>\<open>_positions_market_value\<close> over the held positions (the rows of
  \<^verbatim>\<open>_positions_qty_map\<close>, whose keys the primary key keeps distinct): the value at
  the latest closes, and whether a close is missing.
\<close>

fun positions_market_value ::
  "db \<Rightarrow> (string \<times> string \<times> int) list \<Rightarrow> real \<times> bool \<Rightarrow> real \<times> bool" where
  "positions_market_value d [] acc = acc"
| "positions_market_value d ((s, e, q) # rows) (mv, missing) =
     (case latest_close d s e of
        None \<Rightarrow> positions_market_value d rows (mv, True)
      | Some px \<Rightarrow> positions_market_value d rows (mv + real_of_int q * px, missing))"

record risk_payload =
  rp_status :: string
  rp_items :: "risk_item list"
  rp_ruleset_version :: string
  rp_cash_before :: real
  rp_cash_after_est :: real
  rp_total_equity_est :: real

definition DEFAULT_RULESET_VERSION :: string where
  "DEFAULT_RULESET_VERSION = ''risk/v1''"

definition price_missing_item :: risk_item where
  "price_missing_item =
     \<lparr>code = ''RISK_PRICE_MISSING_FOR_SOME_POSITIONS'', level = ''WARN'', item_draft_id = None\<rparr>"

definition equity_estimate :: "conn \<Rightarrow> uuid \<Rightarrow> real \<Rightarrow> real \<times> bool" where
  "equity_estimate c pid cash =
     (let (positions_mv, price_missing) =
            positions_market_value (cur c) (position_rows (cur c) pid) (0, False);
          total_equity = cash + positions_mv
      in (if total_equity \<le> 0 then cash else total_equity, price_missing))"

text \<open>
  \<^verbatim>\<open>check\<close> up to the end of its loop: cash, simulated quantities, the daily
  order-count check and the per-draft checks.
\<close>

definition per_draft_checks ::
  "risk_rules \<Rightarrow> risk_clock \<Rightarrow> order_draft list \<Rightarrow> conn \<Rightarrow> error + loop_state" where
  "per_draft_checks rules clk draft_rows c =
     (let pid = d_portfolio_id (hd draft_rows)
      in case get_cash c pid of
           Inl err \<Rightarrow> Inl err
         | Inr cash \<Rightarrow>
             (let pos_qty_map =
                    map_of (rev (map (\<lambda>(s, e, q). ((s, e), q)) (position_rows (cur c) pid)));
                  st0 = \<lparr>ls_items = [], ls_status = ''PASS'', ls_cash_now = cash,
                         ls_pos_qty_map = pos_qty_map, ls_price_cache = Map.empty\<rparr>;
                  st1 = (case check_max_orders_per_day rules clk pid of
                           Some it \<Rightarrow> warn_with it st0
                         | None \<Rightarrow> st0)
              in check_drafts rules clk (cur c) pid (fst (equity_estimate c pid cash))
                   draft_rows st1))"

text \<open>
  \<^verbatim>\<open>check\<close>: the guards, the part above, the batch-level item, and the insert of
  the result row in its own transaction.
\<close>

definition check ::
  "risk_rules \<Rightarrow> risk_clock \<Rightarrow> order_draft list \<Rightarrow> conn \<Rightarrow>
   (error + uuid \<times> risk_payload) \<times> conn" where
  "check rules clk draft_rows c =
     (if draft_rows = [] then (Inl (ValueError ''draft_ids empty''), c)
      else
        (let pid = d_portfolio_id (hd draft_rows)
         in if list_ex (\<lambda>d. d_portfolio_id d \<noteq> pid) draft_rows
            then (Inl (ValueError ''drafts must belong to the same portfolio''), c)
            else
              (case get_cash c pid of
                 Inl err \<Rightarrow> (Inl err, c)
               | Inr cash \<Rightarrow>
                   (case per_draft_checks rules clk draft_rows c of
                      Inl err \<Rightarrow> (Inl err, c)
                    | Inr st \<Rightarrow>
                        (let (total_equity, price_missing) = equity_estimate c pid cash;
                             st' = (if price_missing \<and> ls_status st = ''PASS''
                                    then st\<lparr>ls_items := ls_items st @ [price_missing_item],
                                            ls_status := ''WARN''\<rparr>
                                    else st);
                             (rid, c1) = uuid4 c;
                             row = \<lparr>rc_status = ls_status st', rc_items = ls_items st',
                                    rc_ruleset_version = DEFAULT_RULESET_VERSION,
                                    input_draft_ids = map draft_id draft_rows\<rparr>;
                             c2 = commit (execute
                                    (\<lambda>s. s\<lparr>risk_check_results := risk_check_results s @ [(rid, row)]\<rparr>) c1)
                         in (Inr (rid,
                                  \<lparr>rp_status = ls_status st', rp_items = ls_items st',
                                   rp_ruleset_version = DEFAULT_RULESET_VERSION,
                                   rp_cash_before = cash, rp_cash_after_est = ls_cash_now st',
                                   rp_total_equity_est = total_equity\<rparr>), c2))))))"

text \<open>
  Whether an item list holds the batch-level item, and whether the portfolio holds a
  position whose symbol has no latest close.
\<close>

definition has_price_missing_item :: "risk_item list \<Rightarrow> bool" where
  "has_price_missing_item its = list_ex (\<lambda>i. code i = ''RISK_PRICE_MISSING_FOR_SOME_POSITIONS'') its"

definition held_without_price :: "db \<Rightarrow> uuid \<Rightarrow> bool" where
  "held_without_price d pid =
     list_ex (\<lambda>(s, e, q). latest_close d s e = None) (position_rows d pid)"

section \<open>The accounting ledger of a portfolio\<close>

text \<open>
  The quantities of the accounting identity, read off a database state: the cash
  balance, the positions valued at their average cost, and the fees and slippage
  recorded on the portfolio's trades (all of them, or those of the legs that
  \<^verbatim>\<open>_apply_position\<close> treats as sells, i.e. whose side is not BUY).
\<close>

definition cash_of :: "db \<Rightarrow> uuid \<Rightarrow> real" where
  "cash_of d pid = (case map_of (portfolio_accounts d) pid of Some v \<Rightarrow> v | None \<Rightarrow> 0)"

definition cost_of :: "uuid \<Rightarrow> position_key \<Rightarrow> int \<times> real \<Rightarrow> real" where
  "cost_of pid k v = (if fst k = pid then real_of_int (fst v) * snd v else 0)"

definition position_cost :: "db \<Rightarrow> uuid \<Rightarrow> real" where
  "position_cost d pid = (\<Sum>(k, v)\<leftarrow>positions d. cost_of pid k v)"

definition fees_charged :: "db \<Rightarrow> uuid \<Rightarrow> real" where
  "fees_charged d pid =
     (\<Sum>t\<leftarrow>filter (\<lambda>t. t_portfolio_id t = pid) (sim_trades d). fee t + slippage t)"

definition sell_fees_charged :: "db \<Rightarrow> uuid \<Rightarrow> real" where
  "sell_fees_charged d pid =
     (\<Sum>t\<leftarrow>filter (\<lambda>t. t_portfolio_id t = pid \<and> t_side t \<noteq> ''BUY'') (sim_trades d).
        fee t + slippage t)"

definition ledger_sell_fees :: "db \<Rightarrow> uuid \<Rightarrow> real" where
  "ledger_sell_fees d pid = cash_of d pid + position_cost d pid + sell_fees_charged d pid"

definition ledger_all_fees :: "db \<Rightarrow> uuid \<Rightarrow> real" where
  "ledger_all_fees d pid = cash_of d pid + position_cost d pid + fees_charged d pid"

text \<open>
  The positions table as its primary key keeps it, with no negative quantity
  held by the portfolio.
\<close>

definition pos_ok :: "db \<Rightarrow> uuid \<Rightarrow> bool" where
  "pos_ok d pid =
     (distinct (map fst (positions d)) \<and>
      list_all (\<lambda>(k, v). fst k \<noteq> pid \<or> 0 \<le> fst v) (positions d))"

text \<open>A portfolio as \<^verbatim>\<open>PortfolioRepo.create\<close> leaves it: a cash account, no position, no trade.\<close>

definition fresh_portfolio :: "db \<Rightarrow> uuid \<Rightarrow> real \<Rightarrow> bool" where
  "fresh_portfolio d pid cash0 =
     (map_of (portfolio_accounts d) pid = Some cash0 \<and>
      distinct (map fst (positions d)) \<and>
      filter (\<lambda>(k, v). fst k = pid) (positions d) = [] \<and>
      filter (\<lambda>t. t_portfolio_id t = pid) (sim_trades d) = [])"

text \<open>
  The constant-price assumption for one leg: a leg that is not a BUY fills at the
  average cost of the position it sells from. The fill price is the draft's limit
  price, or the latest close when the draft has none.
\<close>

definition leg_at_cost :: "uuid \<Rightarrow> order_draft \<Rightarrow> conn \<Rightarrow> bool" where
  "leg_at_cost pid d c =
     (d_side d = ''BUY'' \<or>
      (case get_position c pid (d_symbol d) (d_exchange d) of
         None \<Rightarrow> False
       | Some p \<Rightarrow>
           (case d_price d of
              Some lp \<Rightarrow> lp = snd p
            | None \<Rightarrow> latest_close (cur c) (d_symbol d) (d_exchange d) = Some (snd p))))"

text \<open>The same along a batch, each leg looked at in the state the legs before it left.\<close>

fun sells_at_cost ::
  "sim_service \<Rightarrow> uuid \<Rightarrow> uuid \<Rightarrow> order_draft list \<Rightarrow> fill_acc \<Rightarrow> conn \<Rightarrow> bool" where
  "sells_at_cost svc oid pid [] acc c = True"
| "sells_at_cost svc oid pid (d # ds) acc c =
     (leg_at_cost pid d c \<and>
      (case confirm_leg svc oid pid d acc c of
         (Inl e, c') \<Rightarrow> True
       | (Inr acc', c') \<Rightarrow> sells_at_cost svc oid pid ds acc' c'))"

definition constant_price :: "sim_service \<Rightarrow> uuid \<Rightarrow> order_draft list \<Rightarrow> conn \<Rightarrow> bool" where
  "constant_price svc pid draft_rows c =
     (case get_cash c pid of
        Inl e \<Rightarrow> True
      | Inr cash \<Rightarrow>
          sells_at_cost svc (fst (uuid4 c)) pid draft_rows (fill_acc0 cash) (snd (uuid4 c)))"

text \<open>
  The states reached from \<open>c0\<close> by successful \<^verbatim>\<open>confirm\<close> calls on one portfolio,
  each batch with positive quantities and under the constant-price assumption.
\<close>

inductive confirmed :: "sim_service \<Rightarrow> uuid \<Rightarrow> conn \<Rightarrow> conn \<Rightarrow> bool"
  for svc :: sim_service and pid :: uuid and c0 :: conn where
  confirmed_start: "confirmed svc pid c0 c0"
| confirmed_step:
    "confirmed svc pid c0 c \<Longrightarrow>
     confirm svc pid draft_rows rid c = (Inr r, c') \<Longrightarrow>
     list_all (\<lambda>d. 0 < d_qty d) draft_rows \<Longrightarrow>
     constant_price svc pid draft_rows c \<Longrightarrow>
     confirmed svc pid c0 c'"

code_pred confirmed .

section \<open>A small store used by the concrete checks\<close>

text \<open>
  One portfolio (id 1) with 500,000 in cash and nothing else, one RAW bar of
  600519.SSE closing at 1000, and three stored risk checks: 10 passed drafts 8 and 9,
  11 passed draft 7, 12 failed.
\<close>

definition ex_bar :: bar where
  "ex_bar = \<lparr>b_symbol = ''600519'', b_exchange = ''SSE'', trade_date = 20250102,
             adj = ''RAW'', close = Some 1000, amount = None, pre_close = None\<rparr>"

definition ex_riskcheck :: "string \<Rightarrow> uuid list \<Rightarrow> risk_check_row" where
  "ex_riskcheck st ids =
     \<lparr>rc_status = st, rc_items = [], rc_ruleset_version = ''risk/v1'', input_draft_ids = ids\<rparr>"

definition ex_buy :: order_draft where
  "ex_buy = \<lparr>draft_id = 8, d_portfolio_id = 1, d_symbol = ''600519'', d_exchange = ''SSE'',
             d_side = ''BUY'', d_price = None, d_qty = 100\<rparr>"

definition ex_sell :: order_draft where
  "ex_sell = \<lparr>draft_id = 9, d_portfolio_id = 1, d_symbol = ''600519'', d_exchange = ''SSE'',
              d_side = ''SELL'', d_price = Some (5004 / 5), d_qty = 100\<rparr>"

definition ex_db :: db where
  "ex_db = \<lparr>portfolio_accounts = [(1, 500000)], positions = [],
            order_drafts = [ex_buy, ex_sell],
            risk_check_results =
              [(10, ex_riskcheck ''PASS'' [8, 9]), (11, ex_riskcheck ''PASS'' [7]),
               (12, ex_riskcheck ''FAIL'' [8])],
            sim_trades = [], sim_orders = [], audit_log = [],
            bars_daily = [ex_bar], trade_plans = [], score_snapshots = []\<rparr>"

text \<open>Draft 8 edited to 1000 shares, and draft 9 edited to sell 200 shares.\<close>

definition ex_big_buy :: order_draft where
  "ex_big_buy = ex_buy\<lparr>d_qty := 1000\<rparr>"

definition ex_oversell :: order_draft where
  "ex_oversell = ex_sell\<lparr>d_qty := 200\<rparr>"

text \<open>A history of \<open>n\<close> RAW bars of 600519.SSE, all closing at 1000.\<close>

definition ex_history :: "nat \<Rightarrow> bar list" where
  "ex_history n =
     map (\<lambda>i. \<lparr>b_symbol = ''600519'', b_exchange = ''SSE'', trade_date = 20250000 + i,
                adj = ''RAW'', close = Some 1000, amount = None, pre_close = None\<rparr>) [0..<n]"

text \<open>The target vector {600519: 1.0}.\<close>

definition ex_target :: target where
  "ex_target = \<lparr>tg_symbol = Some ''600519'', tg_exchange = Some ''SSE'', tg_weight = Some 1\<rparr>"

text \<open>
  The small store with 100 shares of 000001.SZSE held by portfolio 1 (no bar is
  stored for that symbol), and draft 8 edited to 50 shares.
\<close>

definition ex_held_db :: db where
  "ex_held_db = ex_db\<lparr>positions := [((1, ''000001'', ''SZSE''), (100, 8))]\<rparr>"

definition ex_odd_lot :: order_draft where
  "ex_odd_lot = ex_buy\<lparr>d_qty := 50\<rparr>"

section \<open>Stored risk checks with other recorded draft ids\<close>

text \<open>
  \<open>relabel g\<close> replaces, in every state of a connection, the draft ids that each
  stored risk check recorded as its input by the ids \<open>g\<close> gives; nothing else changes.
\<close>

definition relabel_db :: "(uuid \<Rightarrow> risk_check_row \<Rightarrow> uuid list) \<Rightarrow> db \<Rightarrow> db" where
  "relabel_db g d =
     d\<lparr>risk_check_results :=
         map (\<lambda>(k, row). (k, row\<lparr>input_draft_ids := g k row\<rparr>)) (risk_check_results d)\<rparr>"

definition relabel :: "(uuid \<Rightarrow> risk_check_row \<Rightarrow> uuid list) \<Rightarrow> conn \<Rightarrow> conn" where
  "relabel g c =
     c\<lparr>committed := relabel_db g (committed c), cur := relabel_db g (cur c),
       snapshots := map (relabel_db g) (snapshots c)\<rparr>"

section \<open>Properties\<close>

subsection \<open>Accounting identity of the simulated execution\<close>

lemma sum_update:
  "distinct (map fst al) \<Longrightarrow>
   (\<Sum>(k, v)\<leftarrow>AList.update k0 v0 al. g k v) =
   (\<Sum>(k, v)\<leftarrow>al. g k v) - (case map_of al k0 of None \<Rightarrow> 0 | Some v \<Rightarrow> g k0 v) + (g k0 v0 :: real)"
proof (induction al)
  case Nil
  then show ?case by simp
next
  case (Cons a al)
  obtain k v where a: "a = (k, v)" by (cases a)
  show ?case
  proof (cases "k = k0")
    case True
    with Cons.prems a have "map_of al k0 = None"
      by (simp add: map_of_eq_None_iff)
    with True a show ?thesis by simp
  next
    case False
    with Cons a show ?thesis by simp
  qed
qed

lemma sum_delete:
  "distinct (map fst al) \<Longrightarrow>
   (\<Sum>(k, v)\<leftarrow>AList.delete k0 al. g k v) =
   (\<Sum>(k, v)\<leftarrow>al. g k v) - (case map_of al k0 of None \<Rightarrow> 0 | Some v \<Rightarrow> (g k0 v :: real))"
proof (induction al)
  case Nil
  then show ?case by simp
next
  case (Cons a al)
  obtain k v where a: "a = (k, v)" by (cases a)
  show ?case
  proof (cases "k = k0")
    case True
    with Cons.prems a have "map_of al k0 = None" "k0 \<notin> fst ` set al"
      by (simp_all add: map_of_eq_None_iff)
    with True a show ?thesis by (simp add: delete_notin_dom AList.delete_id)
  next
    case False
    with Cons a show ?thesis by simp
  qed
qed

lemma set_update_subset: "set (AList.update k v al) \<subseteq> insert (k, v) (set al)"
  by (induction al) auto

lemma set_delete_subset: "set (AList.delete k al) \<subseteq> set al"
  by (auto simp: AList.delete_eq)

lemma list_all_update:
  "list_all P al \<Longrightarrow> P (k, v) \<Longrightarrow> list_all P (AList.update k v al)"
  using set_update_subset [of k v al] by (auto simp: list_all_iff)

lemma list_all_delete: "list_all P al \<Longrightarrow> list_all P (AList.delete k al)"
  using set_delete_subset [of k al] by (auto simp: list_all_iff)

lemma position_cost_upsert:
  "distinct (map fst (positions d)) \<Longrightarrow>
   position_cost (d\<lparr>positions := AList.update (pid, s, e) (q, a) (positions d)\<rparr>) pid =
   position_cost d pid
   - (case map_of (positions d) (pid, s, e) of None \<Rightarrow> 0 | Some v \<Rightarrow> real_of_int (fst v) * snd v)
   + real_of_int q * a"
  by (simp add: position_cost_def sum_update cost_of_def split: option.splits)

lemma position_cost_delete:
  "distinct (map fst (positions d)) \<Longrightarrow>
   position_cost (d\<lparr>positions := AList.delete (pid, s, e) (positions d)\<rparr>) pid =
   position_cost d pid
   - (case map_of (positions d) (pid, s, e) of None \<Rightarrow> 0 | Some v \<Rightarrow> real_of_int (fst v) * snd v)"
  by (simp add: position_cost_def sum_delete cost_of_def split: option.splits)

lemma pos_ok_nonneg:
  "pos_ok d pid \<Longrightarrow> map_of (positions d) (pid, s, e) = Some v \<Longrightarrow> 0 \<le> fst v"
  by (auto simp: pos_ok_def list_all_iff dest!: map_of_SomeD)

lemma apply_position_frame:
  assumes "apply_position pid s e side q fp fe sl c = (Inr u, c')"
  shows "sim_trades (cur c') = sim_trades (cur c)"
    and "portfolio_accounts (cur c') = portfolio_accounts (cur c)"
    and "committed c' = cur c'"
  using assms
  by (auto simp: apply_position_def Let_def upsert_position_def delete_position_def
      commit_def execute_def split: if_splits)

lemma apply_position_buy:
  assumes ap: "apply_position pid s e ''BUY'' q fp fe sl c = (Inr u, c')"
    and q: "0 < q" and ok: "pos_ok (cur c) pid"
  shows "pos_ok (cur c') pid"
    and "position_cost (cur c') pid =
         position_cost (cur c) pid + (fp * real_of_int q + fe + sl)"
proof -
  define oq where "oq = (case map_of (positions (cur c)) (pid, s, e) of Some p \<Rightarrow> fst p | None \<Rightarrow> 0)"
  define oa where "oa = (case map_of (positions (cur c)) (pid, s, e) of Some p \<Rightarrow> snd p | None \<Rightarrow> 0)"
  define na where "na = (oa * real_of_int oq + fp * real_of_int q + fe + sl) / (real_of_int oq + real_of_int q)"
  have oq0: "0 \<le> oq"
    using pos_ok_nonneg [OF ok] by (auto simp: oq_def split: option.splits)
  with q have nz: "oq + q \<noteq> 0" by simp
  have c': "cur c' = (cur c)\<lparr>positions := AList.update (pid, s, e) (oq + q, na) (positions (cur c))\<rparr>"
    using ap nz
    by (auto simp: apply_position_def Let_def upsert_position_def commit_def execute_def
        get_position_def oq_def oa_def na_def)
  have d: "distinct (map fst (positions (cur c)))"
    using ok by (simp add: pos_ok_def)
  have old: "(case map_of (positions (cur c)) (pid, s, e) of None \<Rightarrow> 0
             | Some v \<Rightarrow> real_of_int (fst v) * snd v) = oa * real_of_int oq"
    by (simp add: oq_def oa_def split: option.splits)
  have new: "real_of_int (oq + q) * na = oa * real_of_int oq + fp * real_of_int q + fe + sl"
    using nz by (simp add: na_def)
  show "position_cost (cur c') pid = position_cost (cur c) pid + (fp * real_of_int q + fe + sl)"
    unfolding c' position_cost_upsert [OF d] old new by simp
  show "pos_ok (cur c') pid"
    using ok oq0 q unfolding c' pos_ok_def
    by (simp add: distinct_update list_all_update)
qed

lemma apply_position_sell:
  assumes ap: "apply_position pid s e side q fp fe sl c = (Inr u, c')"
    and side: "side \<noteq> ''BUY''"
    and pos: "map_of (positions (cur c)) (pid, s, e) = Some (oq, fp)"
    and ok: "pos_ok (cur c) pid"
  shows "pos_ok (cur c') pid"
    and "position_cost (cur c') pid = position_cost (cur c) pid - fp * real_of_int q"
proof -
  have d: "distinct (map fst (positions (cur c)))"
    using ok by (simp add: pos_ok_def)
  have ge: "0 \<le> oq - q"
    using ap side pos
    by (auto simp: apply_position_def Let_def get_position_def split: if_splits)
  show "pos_ok (cur c') pid"
    using ap side pos ok ge
    by (auto simp: apply_position_def Let_def get_position_def upsert_position_def
        delete_position_def commit_def execute_def pos_ok_def distinct_update distinct_delete
        list_all_update list_all_delete split: if_splits)
  show "position_cost (cur c') pid = position_cost (cur c) pid - fp * real_of_int q"
  proof (cases "oq - q = 0")
    case True
    then have "cur c' = (cur c)\<lparr>positions := AList.delete (pid, s, e) (positions (cur c))\<rparr>"
      using ap side pos
      by (auto simp: apply_position_def Let_def get_position_def delete_position_def
          commit_def execute_def)
    then show ?thesis
      using True pos by (simp add: position_cost_delete [OF d] mult.commute)
  next
    case False
    then have "cur c' = (cur c)\<lparr>positions := AList.update (pid, s, e) (oq - q, fp) (positions (cur c))\<rparr>"
      using ap side pos ge
      by (auto simp: apply_position_def Let_def get_position_def upsert_position_def
          commit_def execute_def)
    then show ?thesis
      using pos by (simp add: position_cost_upsert [OF d] algebra_simps)
  qed
qed

lemma confirm_leg_ledger:
  assumes leg: "confirm_leg svc oid pid d acc c = (Inr acc', c')"
    and q: "0 < d_qty d" and ac: "leg_at_cost pid d c" and ok: "pos_ok (cur c) pid"
  shows "pos_ok (cur c') pid"
    and "acc_cash acc' + position_cost (cur c') pid + sell_fees_charged (cur c') pid =
         acc_cash acc + position_cost (cur c) pid + sell_fees_charged (cur c) pid"
    and "portfolio_accounts (cur c') = portfolio_accounts (cur c)"
    and "committed c' = cur c'"
proof -
  from leg obtain base where base: "latest_close (cur c) (d_symbol d) (d_exchange d) = Some base"
    by (auto simp: confirm_leg_def split: option.splits)
  define fp where "fp = (case d_price d of Some p \<Rightarrow> p | None \<Rightarrow> base)"
  define sl where "sl = base * slippage_rate svc * real_of_int (d_qty d)"
  define fe where "fe = fp * real_of_int (d_qty d) * fee_rate svc"
  define tr where "tr = \<lparr>trade_id = uuid_next c, t_order_id = oid, t_portfolio_id = pid,
      t_symbol = d_symbol d, t_exchange = d_exchange d, t_side = d_side d,
      fill_price = fp, fill_qty = d_qty d, fee = fe, slippage = sl\<rparr>"
  define c2 where "c2 = execute (\<lambda>s. s\<lparr>sim_trades := sim_trades s @ [tr]\<rparr>) (snd (uuid4 c))"
  have cur2: "cur c2 = (cur c)\<lparr>sim_trades := sim_trades (cur c) @ [tr]\<rparr>"
    by (simp add: c2_def execute_def uuid4_def)
  from leg base obtain u where ap:
    "apply_position pid (d_symbol d) (d_exchange d) (d_side d) (d_qty d) fp fe sl c2 = (Inr u, c')"
    and cash: "acc_cash acc' = (if d_side d = ''BUY''
         then acc_cash acc - (fp * real_of_int (d_qty d) + fe + sl)
         else acc_cash acc + (fp * real_of_int (d_qty d) - fe - sl))"
    by (auto simp: confirm_leg_def Let_def uuid4_def fp_def sl_def fe_def tr_def c2_def
        split: prod.splits sum.splits)
  have ok2: "pos_ok (cur c2) pid"
    using ok by (simp add: cur2 pos_ok_def)
  have pc2: "position_cost (cur c2) pid = position_cost (cur c) pid"
    by (simp add: cur2 position_cost_def)
  have sf2: "sell_fees_charged (cur c2) pid =
      sell_fees_charged (cur c) pid + (if d_side d = ''BUY'' then 0 else fe + sl)"
    by (simp add: cur2 sell_fees_charged_def tr_def)
  note fr = apply_position_frame [OF ap]
  show "portfolio_accounts (cur c') = portfolio_accounts (cur c)"
    using fr(2) by (simp add: cur2)
  show "committed c' = cur c'" by (rule fr(3))
  have sf: "sell_fees_charged (cur c') pid = sell_fees_charged (cur c2) pid"
    using fr(1) by (simp add: sell_fees_charged_def)
  show "pos_ok (cur c') pid"
    and "acc_cash acc' + position_cost (cur c') pid + sell_fees_charged (cur c') pid =
         acc_cash acc + position_cost (cur c) pid + sell_fees_charged (cur c) pid"
  proof -
    have "pos_ok (cur c') pid \<and>
        acc_cash acc' + position_cost (cur c') pid + sell_fees_charged (cur c') pid =
        acc_cash acc + position_cost (cur c) pid + sell_fees_charged (cur c) pid"
    proof (cases "d_side d = ''BUY''")
      case True
      with ap have ap': "apply_position pid (d_symbol d) (d_exchange d) ''BUY'' (d_qty d) fp fe sl c2
          = (Inr u, c')" by simp
      from apply_position_buy [OF ap' q ok2] True cash pc2 sf sf2
      show ?thesis by simp
    next
      case False
      with ac base obtain oq where
        pos: "map_of (positions (cur c2)) (pid, d_symbol d, d_exchange d) = Some (oq, fp)"
        by (cases "d_price d")
          (auto simp: leg_at_cost_def get_position_def cur2 fp_def split: option.splits)
      from apply_position_sell [OF ap False pos ok2] False cash pc2 sf sf2
      show ?thesis by simp
    qed
    then show "pos_ok (cur c') pid"
      and "acc_cash acc' + position_cost (cur c') pid + sell_fees_charged (cur c') pid =
         acc_cash acc + position_cost (cur c) pid + sell_fees_charged (cur c) pid"
      by simp_all
  qed
qed

lemma confirm_legs_ledger:
  assumes "confirm_legs svc oid pid ds acc c = (Inr acc', c')"
    and "list_all (\<lambda>d. 0 < d_qty d) ds"
    and "sells_at_cost svc oid pid ds acc c"
    and "pos_ok (cur c) pid" and "committed c = cur c"
  shows "pos_ok (cur c') pid \<and>
         acc_cash acc' + position_cost (cur c') pid + sell_fees_charged (cur c') pid =
         acc_cash acc + position_cost (cur c) pid + sell_fees_charged (cur c) pid \<and>
         portfolio_accounts (cur c') = portfolio_accounts (cur c) \<and>
         committed c' = cur c'"
  using assms
proof (induction ds arbitrary: acc c)
  case Nil
  then show ?case by simp
next
  case (Cons d ds)
  from Cons.prems(1) obtain acc1 c1 where
    leg: "confirm_leg svc oid pid d acc c = (Inr acc1, c1)"
    and rest: "confirm_legs svc oid pid ds acc1 c1 = (Inr acc', c')"
    by (auto split: prod.splits sum.splits)
  from Cons.prems(2) have q: "0 < d_qty d" and qs: "list_all (\<lambda>d. 0 < d_qty d) ds"
    by simp_all
  from Cons.prems(3) leg have ac: "leg_at_cost pid d c"
    and acs: "sells_at_cost svc oid pid ds acc1 c1"
    by simp_all
  note l = confirm_leg_ledger [OF leg q ac Cons.prems(4)]
  from Cons.IH [OF rest qs acs l(1) l(4)] l(2) l(3)
  show ?case by simp
qed

lemma map_of_set_value:
  "map_of al pid = Some v0 \<Longrightarrow>
   map_of (map (\<lambda>(p, old). if p = pid then (p, v) else (p, old)) al) pid = Some v"
  by (induction al) (auto split: if_splits)

lemma cash_of_update_cash:
  "map_of (portfolio_accounts d) pid = Some v0 \<Longrightarrow> cash_of (update_cash pid v d) pid = v"
  by (simp add: cash_of_def update_cash_def map_of_set_value)

lemma confirm_ledger:
  assumes cf: "confirm svc pid draft_rows rid c = (Inr r, c')"
    and q: "list_all (\<lambda>d. 0 < d_qty d) draft_rows"
    and cp: "constant_price svc pid draft_rows c"
    and ok: "pos_ok (cur c) pid" and cm: "committed c = cur c"
  shows "pos_ok (cur c') pid \<and> ledger_sell_fees (cur c') pid = ledger_sell_fees (cur c) pid \<and>
         committed c' = cur c'"
proof -
  from cf obtain cash where gc: "get_cash c pid = Inr cash"
    by (auto simp: confirm_def split: if_splits option.splits sum.splits)
  then have acct: "map_of (portfolio_accounts (cur c)) pid = Some cash"
    by (auto simp: get_cash_def split: option.splits)
  define c1 where "c1 = snd (uuid4 c)"
  define oid where "oid = fst (uuid4 c)"
  have cur1: "cur c1 = cur c" "committed c1 = cur c1"
    using cm by (simp_all add: c1_def uuid4_def)
  from cf gc obtain acc c2 where
    legs: "confirm_legs svc oid pid draft_rows (fill_acc0 cash) c1 = (Inr acc, c2)"
    and c': "cur c' = update_cash pid (acc_cash acc)
       ((cur c2)\<lparr>sim_orders := sim_orders (cur c2) @
          [\<lparr>order_id = oid, o_portfolio_id = pid, o_status = ''FILLED'',
            draft_ids = map draft_id draft_rows, filled_qty = filled_qty_total acc,
            avg_fill_price = (if filled_qty_total acc \<noteq> 0
               then Some (fill_value_total acc / real_of_int (filled_qty_total acc)) else None),
            fee_total = total_fee acc, slippage_total = total_slip acc\<rparr>]\<rparr>)"
    and cm': "committed c' = cur c'"
    by (auto simp: confirm_def Let_def c1_def oid_def set_cash_def commit_def execute_def
        split: if_splits option.splits sum.splits prod.splits)
  from cp gc have sc: "sells_at_cost svc oid pid draft_rows (fill_acc0 cash) c1"
    by (simp add: constant_price_def oid_def c1_def)
  from ok have ok1: "pos_ok (cur c1) pid" by (simp add: cur1)
  note l = confirm_legs_ledger [OF legs q sc ok1 cur1(2)]
  have pos: "positions (cur c') = positions (cur c2)"
    and tr: "sim_trades (cur c') = sim_trades (cur c2)"
    by (simp_all add: c' update_cash_def)
  have "map_of (portfolio_accounts ((cur c2)\<lparr>sim_orders := xs\<rparr>)) pid = Some cash" for xs
    using l acct by (simp add: cur1)
  then have cash': "cash_of (cur c') pid = acc_cash acc"
    unfolding c' by (rule cash_of_update_cash)
  have "ledger_sell_fees (cur c') pid = ledger_sell_fees (cur c) pid"
    using l cash' acct
    by (simp add: ledger_sell_fees_def position_cost_def sell_fees_charged_def pos tr cur1
        cash_of_def fill_acc0_def)
  moreover have "pos_ok (cur c') pid"
    using l by (simp add: pos_ok_def pos)
  ultimately show ?thesis using cm' by simp
qed

lemma fresh_portfolio_ledger:
  assumes "fresh_portfolio d pid cash0"
  shows "pos_ok d pid" and "ledger_sell_fees d pid = cash0"
proof -
  from assms have f: "filter (\<lambda>(k, v). fst k = pid) (positions d) = []"
    by (simp add: fresh_portfolio_def)
  then have np: "\<forall>kv\<in>set (positions d). fst (fst kv) \<noteq> pid"
    by (auto simp: filter_empty_conv)
  then show "pos_ok d pid"
    using assms by (auto simp: pos_ok_def fresh_portfolio_def list_all_iff)
  have "\<forall>kv\<in>set al. fst (fst kv) \<noteq> pid \<Longrightarrow> (\<Sum>(k, v)\<leftarrow>al. cost_of pid k v) = 0" for al
    by (induction al) (auto simp: cost_of_def)
  with np have pc: "position_cost d pid = 0"
    by (simp add: position_cost_def)
  from assms have "filter (\<lambda>t. t_portfolio_id t = pid \<and> t_side t \<noteq> ''BUY'') (sim_trades d) = []"
    by (auto simp: fresh_portfolio_def filter_empty_conv)
  then have sf: "sell_fees_charged d pid = 0"
    by (simp add: sell_fees_charged_def)
  from assms have "cash_of d pid = cash0"
    by (simp add: fresh_portfolio_def cash_of_def)
  with pc sf show "ledger_sell_fees d pid = cash0"
    by (simp add: ledger_sell_fees_def)
qed

lemma confirmed_invariant:
  assumes "confirmed svc pid c0 c" and "pos_ok (cur c0) pid" and "committed c0 = cur c0"
  shows "pos_ok (cur c) pid \<and> ledger_sell_fees (cur c) pid = ledger_sell_fees (cur c0) pid \<and>
         committed c = cur c"
  using assms
proof (induction rule: confirmed.induct)
  case confirmed_start
  then show ?case by simp
next
  case (confirmed_step c draft_rows rid r c')
  then have inv: "pos_ok (cur c) pid" "committed c = cur c"
    and eq: "ledger_sell_fees (cur c) pid = ledger_sell_fees (cur c0) pid"
    by simp_all
  from confirm_ledger [OF confirmed_step.hyps(2,3,4) inv] eq
  show ?case by simp
qed

lemmas ex_defs = ex_db_def ex_buy_def ex_sell_def ex_bar_def ex_riskcheck_def connect_def
  default_sim_def

lemmas run_defs = confirm_def confirm_leg_def fill_acc0_def get_cash_def uuid4_def
  latest_close_def bars_of_def execute_def apply_position_def get_position_def
  upsert_position_def delete_position_def commit_def rollback_def set_cash_def
  update_cash_def Let_def

lemma returned_pair: "\<not> isl (fst x) \<Longrightarrow> x = (Inr (projr (fst x)), snd x)"
  by (cases x, cases "fst x") auto

text \<open>
  Claim C1, as the code has it. A portfolio starts with cash \<open>cash0\<close>, no position and
  no trade. After any sequence of successful \<^verbatim>\<open>confirm\<close> calls on it, every leg with
  a positive quantity and every leg that is not a BUY filling at the average cost of
  its position, the committed cash plus the positions at average cost plus the fees
  and slippage charged on the legs that are not BUYs equals \<open>cash0\<close>. The fees and
  slippage of a BUY leg are not added: \<^verbatim>\<open>_apply_position\<close> has put them into
  the average cost already.
\<close>

theorem confirm_accounting_identity:
  assumes "confirmed svc pid (connect d n) c" and "fresh_portfolio d pid cash0"
  shows "cash_of (committed c) pid + position_cost (committed c) pid
         + sell_fees_charged (committed c) pid = cash0"
proof -
  have "pos_ok (cur (connect d n)) pid" "committed (connect d n) = cur (connect d n)"
    using fresh_portfolio_ledger(1) [OF assms(2)] by (simp_all add: connect_def)
  from confirmed_invariant [OF assms(1) this]
  have "ledger_sell_fees (committed c) pid = ledger_sell_fees d pid"
    by (simp add: connect_def)
  with fresh_portfolio_ledger(2) [OF assms(2)] show ?thesis
    by (simp add: ledger_sell_fees_def)
qed

text \<open>
  The theorem at work: portfolio 1 buys 100 shares at the close of 1000 (average
  cost 1000.8 after fee 30 and slippage 50) and sells them at 1000.8 in the same
  batch.
\<close>

theorem confirm_accounting_identity_witness:
  "fresh_portfolio ex_db 1 500000 \<and>
   confirmed default_sim 1 (connect ex_db 100)
     (snd (confirm default_sim 1 [ex_buy, ex_sell] 10 (connect ex_db 100))) \<and>
   cash_of (committed (snd (confirm default_sim 1 [ex_buy, ex_sell] 10 (connect ex_db 100)))) 1
   + position_cost (committed (snd (confirm default_sim 1 [ex_buy, ex_sell] 10 (connect ex_db 100)))) 1
   + sell_fees_charged
       (committed (snd (confirm default_sim 1 [ex_buy, ex_sell] 10 (connect ex_db 100)))) 1
   = 500000"
proof -
  let ?X = "confirm default_sim 1 [ex_buy, ex_sell] 10 (connect ex_db 100)"
  have fresh: "fresh_portfolio ex_db 1 500000"
    by (simp add: ex_defs fresh_portfolio_def)
  have "\<not> isl (fst ?X)"
    by (simp add: ex_defs run_defs)
  then have eq: "?X = (Inr (projr (fst ?X)), snd ?X)"
    by (rule returned_pair)
  have q: "list_all (\<lambda>d. 0 < d_qty d) [ex_buy, ex_sell]"
    by (simp add: ex_defs)
  have cp: "constant_price default_sim 1 [ex_buy, ex_sell] (connect ex_db 100)"
    by (simp add: ex_defs run_defs constant_price_def leg_at_cost_def)
  have run: "confirmed default_sim 1 (connect ex_db 100) (snd ?X)"
    by (rule confirmed_step [OF confirmed_start eq q cp])
  from confirm_accounting_identity [OF run fresh] fresh run show ?thesis
    by simp
qed

text \<open>
  The identity as the specification words it, with the fees and slippage of every
  leg added, fails on the first BUY: after buying 100 shares at 1000 the cash is
  399,920, the position costs 100,080 and the fees and slippage charged are 80,
  which add up to 500,080.
\<close>

theorem confirm_all_fees_identity_counterexample:
  "fresh_portfolio ex_db 1 500000 \<and>
   confirmed default_sim 1 (connect ex_db 100)
     (snd (confirm default_sim 1 [ex_buy] 10 (connect ex_db 100))) \<and>
   ledger_all_fees (committed (snd (confirm default_sim 1 [ex_buy] 10 (connect ex_db 100)))) 1
   = 500080"
proof -
  let ?X = "confirm default_sim 1 [ex_buy] 10 (connect ex_db 100)"
  have fresh: "fresh_portfolio ex_db 1 500000"
    by (simp add: ex_defs fresh_portfolio_def)
  have "\<not> isl (fst ?X)"
    by (simp add: ex_defs run_defs)
  then have eq: "?X = (Inr (projr (fst ?X)), snd ?X)"
    by (rule returned_pair)
  have q: "list_all (\<lambda>d. 0 < d_qty d) [ex_buy]"
    by (simp add: ex_defs)
  have cp: "constant_price default_sim 1 [ex_buy] (connect ex_db 100)"
    by (simp add: ex_defs run_defs constant_price_def leg_at_cost_def)
  have run: "confirmed default_sim 1 (connect ex_db 100) (snd ?X)"
    by (rule confirmed_step [OF confirmed_start eq q cp])
  have "ledger_all_fees (committed (snd ?X)) 1 = 500080"
    by (simp add: ex_defs run_defs ledger_all_fees_def cash_of_def position_cost_def
        cost_of_def fees_charged_def)
  with fresh run show ?thesis by simp
qed

subsection \<open>What confirm checks before it fills\<close>

lemma relabel_cur [simp]: "cur (relabel g c) = relabel_db g (cur c)"
  by (simp add: relabel_def)

lemma relabel_uuid_next [simp]: "uuid_next (relabel g c) = uuid_next c"
  by (simp add: relabel_def)

lemma relabel_uuid_update [simp]:
  "(relabel g c)\<lparr>uuid_next := n\<rparr> = relabel g (c\<lparr>uuid_next := n\<rparr>)"
  by (simp add: relabel_def)

lemma relabel_db_fields [simp]:
  "portfolio_accounts (relabel_db g d) = portfolio_accounts d"
  "positions (relabel_db g d) = positions d"
  "bars_daily (relabel_db g d) = bars_daily d"
  by (simp_all add: relabel_db_def)

lemma relabel_latest_close [simp]: "latest_close (relabel_db g d) s e = latest_close d s e"
  by (simp add: latest_close_def bars_of_def)

lemma relabel_riskcheck:
  "map_of (risk_check_results (relabel_db g d)) rid =
   map_option (\<lambda>row. row\<lparr>input_draft_ids := g rid row\<rparr>) (map_of (risk_check_results d) rid)"
proof -
  have "map_of (map (\<lambda>(k, row). (k, row\<lparr>input_draft_ids := g k row\<rparr>)) al) rid =
        map_option (\<lambda>row. row\<lparr>input_draft_ids := g rid row\<rparr>) (map_of al rid)" for al
    by (induction al) auto
  then show ?thesis by (simp add: relabel_db_def)
qed

lemma relabel_execute:
  "(\<And>d. stmt (relabel_db g d) = relabel_db g (stmt d)) \<Longrightarrow>
   execute stmt (relabel g c) = relabel g (execute stmt c)"
  by (simp add: execute_def relabel_def)

lemma relabel_commit: "commit (relabel g c) = relabel g (commit c)"
  by (simp add: commit_def relabel_def)

lemma relabel_rollback: "rollback (relabel g c) = relabel g (rollback c)"
  by (simp add: rollback_def relabel_def)

lemma relabel_uuid4: "uuid4 (relabel g c) = apsnd (relabel g) (uuid4 c)"
  by (simp add: uuid4_def relabel_def)

lemma relabel_get_cash: "get_cash (relabel g c) pid = get_cash c pid"
  by (simp add: get_cash_def)

lemma relabel_set_cash: "set_cash pid v (relabel g c) = relabel g (set_cash pid v c)"
  by (simp add: set_cash_def relabel_commit relabel_execute update_cash_def relabel_db_def)

lemma relabel_upsert:
  "upsert_position pid s e q a (relabel g c) = relabel g (upsert_position pid s e q a c)"
  by (simp add: upsert_position_def relabel_commit relabel_execute relabel_db_def)

lemma relabel_delete:
  "delete_position pid s e (relabel g c) = relabel g (delete_position pid s e c)"
  by (simp add: delete_position_def relabel_commit relabel_execute relabel_db_def)

lemma relabel_apply_position:
  "apply_position pid s e side q fp fe sl (relabel g c) =
   apsnd (relabel g) (apply_position pid s e side q fp fe sl c)"
  by (simp add: apply_position_def Let_def get_position_def relabel_upsert relabel_delete)

lemma relabel_confirm_leg:
  "confirm_leg svc oid pid d acc (relabel g c) = apsnd (relabel g) (confirm_leg svc oid pid d acc c)"
proof -
  have ex: "execute (\<lambda>s. s\<lparr>sim_trades := sim_trades s @ [tr]\<rparr>) (relabel g c') =
        relabel g (execute (\<lambda>s. s\<lparr>sim_trades := sim_trades s @ [tr]\<rparr>) c')" for tr c'
    by (rule relabel_execute) (simp add: relabel_db_def)
  show ?thesis
    by (simp add: confirm_leg_def Let_def relabel_uuid4 uuid4_def ex relabel_apply_position
        split: option.splits prod.splits sum.splits)
qed

lemma relabel_confirm_legs:
  "confirm_legs svc oid pid ds acc (relabel g c) =
   apsnd (relabel g) (confirm_legs svc oid pid ds acc c)"
proof (induction ds arbitrary: acc c)
  case Nil
  then show ?case by simp
next
  case (Cons d ds)
  show ?case
    by (cases "confirm_leg svc oid pid d acc c")
      (auto simp: relabel_confirm_leg Cons.IH split: sum.splits)
qed

text \<open>
  Claim C9. \<^verbatim>\<open>confirm\<close> looks up the risk check by its id and reads its status;
  the draft ids the risk check recorded as its input play no part: with any other
  recorded ids \<^verbatim>\<open>confirm\<close> returns the same result and writes the same rows.
  So a batch that was never risk-checked is filled under a risk check that passed
  other drafts.
\<close>

theorem confirm_ignores_input_draft_ids:
  "confirm svc pid draft_rows rid (relabel g c) =
   apsnd (relabel g) (confirm svc pid draft_rows rid c)"
proof -
  have ex: "execute (\<lambda>s. s\<lparr>sim_orders := sim_orders s @ [ord]\<rparr>) (relabel g c') =
        relabel g (execute (\<lambda>s. s\<lparr>sim_orders := sim_orders s @ [ord]\<rparr>) c')" for ord c'
    by (rule relabel_execute) (simp add: relabel_db_def)
  show ?thesis
    by (simp add: confirm_def Let_def relabel_riskcheck relabel_get_cash relabel_uuid4 uuid4_def
        relabel_confirm_legs ex relabel_set_cash relabel_commit relabel_rollback
        split: option.splits prod.splits sum.splits)
qed

text \<open>
  The theorem at work: stored risk check 10, relabelled so that it records draft 7
  only, still lets \<^verbatim>\<open>confirm\<close> fill draft 8, and the order row for draft 8 is
  committed.
\<close>

theorem confirm_ignores_input_draft_ids_witness:
  "map_option input_draft_ids
     (map_of (risk_check_results (cur (relabel (\<lambda>k row. [7]) (connect ex_db 100)))) 10) = Some [7] \<and>
   map draft_id [ex_buy] = [8] \<and>
   \<not> isl (fst (confirm default_sim 1 [ex_buy] 10 (relabel (\<lambda>k row. [7]) (connect ex_db 100)))) \<and>
   map draft_ids (sim_orders (committed
     (snd (confirm default_sim 1 [ex_buy] 10 (relabel (\<lambda>k row. [7]) (connect ex_db 100)))))) = [[8]]"
  unfolding confirm_ignores_input_draft_ids
  by (simp add: ex_defs run_defs relabel_def relabel_db_def)

text \<open>
  Claim C10. \<^verbatim>\<open>confirm\<close> has no cash check of its own: under a stored risk check
  that is not FAIL, a single BUY draft with a known latest close is filled whatever
  the cash balance is, and the committed balance is the old one minus cost, fee and
  slippage, which can be negative.
\<close>

theorem confirm_buy_ignores_cash:
  assumes rc: "map_of (risk_check_results (cur c)) rid = Some row"
    and st: "rc_status row \<noteq> ''FAIL''"
    and cash: "map_of (portfolio_accounts (cur c)) pid = Some cash"
    and px: "latest_close (cur c) (d_symbol d) (d_exchange d) = Some base"
    and side: "d_side d = ''BUY''"
  shows "\<not> isl (fst (confirm svc pid [d] rid c)) \<and>
         cash_of (committed (snd (confirm svc pid [d] rid c))) pid =
         cash - ((case d_price d of Some p \<Rightarrow> p | None \<Rightarrow> base) * real_of_int (d_qty d)
                 + (case d_price d of Some p \<Rightarrow> p | None \<Rightarrow> base) * real_of_int (d_qty d) * fee_rate svc
                 + base * slippage_rate svc * real_of_int (d_qty d))"
proof -
  have gc: "get_cash c pid = Inr cash"
    using cash by (simp add: get_cash_def)
  show ?thesis
    using rc st gc px side cash
    by (simp add: confirm_def confirm_leg_def fill_acc0_def uuid4_def execute_def
        apply_position_def upsert_position_def commit_def set_cash_def Let_def
        cash_of_def update_cash_def map_of_set_value)
qed

text \<open>
  The theorem at work: with 500,000 in cash, buying 1000 shares at 1000 is filled
  and leaves the committed balance at -500,800.
\<close>

theorem confirm_buy_ignores_cash_witness:
  "0 \<le> cash_of ex_db 1 \<and>
   \<not> isl (fst (confirm default_sim 1 [ex_big_buy] 10 (connect ex_db 100))) \<and>
   cash_of (committed (snd (confirm default_sim 1 [ex_big_buy] 10 (connect ex_db 100)))) 1
   = - 500800"
proof -
  have rc: "map_of (risk_check_results (cur (connect ex_db 100))) 10
            = Some (ex_riskcheck ''PASS'' [8, 9])"
    by (simp add: ex_defs)
  have st: "rc_status (ex_riskcheck ''PASS'' [8, 9]) \<noteq> ''FAIL''"
    by (simp add: ex_defs)
  have cash: "map_of (portfolio_accounts (cur (connect ex_db 100))) 1 = Some 500000"
    by (simp add: ex_defs)
  have px: "latest_close (cur (connect ex_db 100)) (d_symbol ex_big_buy) (d_exchange ex_big_buy)
            = Some 1000"
    by (simp add: ex_defs ex_big_buy_def latest_close_def bars_of_def)
  have side: "d_side ex_big_buy = ''BUY''"
    by (simp add: ex_defs ex_big_buy_def)
  from confirm_buy_ignores_cash [OF rc st cash px side, of default_sim]
  show ?thesis
    by (simp add: ex_defs ex_big_buy_def cash_of_def)
qed

subsection \<open>Transactions of the simulated execution\<close>

text \<open>
  Claim C3, at a batch that fails on its second leg. Portfolio 1 holds nothing; the
  batch buys 100 shares and then sells 200. The sell raises, \<^verbatim>\<open>confirm\<close> returns
  the error and writes neither the order row nor the cash, but the first leg's
  trade row and position are committed: \<^verbatim>\<open>upsert_position\<close> runs its own
  \<^verbatim>\<open>with conn:\<close> inside the one of \<^verbatim>\<open>confirm\<close>, and leaving it commits
  everything written so far.
\<close>

theorem confirm_partial_commit:
  "fst (confirm default_sim 1 [ex_buy, ex_oversell] 10 (connect ex_db 100))
     = Inl (ValueError ''position would go negative'') \<and>
   positions ex_db = [] \<and> sim_trades ex_db = [] \<and>
   positions (committed (snd (confirm default_sim 1 [ex_buy, ex_oversell] 10 (connect ex_db 100))))
     = [((1, ''600519'', ''SSE''), (100, 5004 / 5))] \<and>
   map fill_qty
     (sim_trades (committed (snd (confirm default_sim 1 [ex_buy, ex_oversell] 10 (connect ex_db 100)))))
     = [100] \<and>
   sim_orders (committed (snd (confirm default_sim 1 [ex_buy, ex_oversell] 10 (connect ex_db 100))))
     = [] \<and>
   portfolio_accounts
     (committed (snd (confirm default_sim 1 [ex_buy, ex_oversell] 10 (connect ex_db 100))))
     = [(1, 500000)]"
  by (simp add: ex_defs ex_oversell_def run_defs)

subsection \<open>Audit rows and the rows they are about\<close>

lemma audit_inv_execute:
  "audit_inv c \<Longrightarrow> audited_order_committed (stmt (cur c)) \<Longrightarrow> audit_inv (execute stmt c)"
  by (simp add: audit_inv_def execute_def)

lemma audit_inv_commit: "audit_inv c \<Longrightarrow> audit_inv (commit c)"
  by (simp add: audit_inv_def commit_def)

lemma audit_inv_rollback: "audit_inv c \<Longrightarrow> audit_inv (rollback c)"
  by (simp add: audit_inv_def rollback_def)

lemma audit_inv_uuid4: "audit_inv c \<Longrightarrow> audit_inv (snd (uuid4 c))"
  by (simp add: audit_inv_def uuid4_def)

lemma audited_same:
  "audited_order_committed d \<Longrightarrow> audit_log d' = audit_log d \<Longrightarrow>
   set (sim_orders d) \<subseteq> set (sim_orders d') \<Longrightarrow> audited_order_committed d'"
  by (auto simp: audited_order_committed_def list_all_iff)

lemma audit_inv_keep:
  assumes "audit_inv c"
    and "\<And>d. audit_log (stmt d) = audit_log d"
    and "\<And>d. set (sim_orders d) \<subseteq> set (sim_orders (stmt d))"
  shows "audit_inv (execute stmt c)"
proof (rule audit_inv_execute [OF assms(1)])
  from assms(1) have "audited_order_committed (cur c)" by (simp add: audit_inv_def)
  then show "audited_order_committed (stmt (cur c))"
    by (rule audited_same) (simp_all add: assms(2,3))
qed

lemma audit_inv_set_cash: "audit_inv c \<Longrightarrow> audit_inv (set_cash pid v c)"
  unfolding set_cash_def
  by (intro audit_inv_commit audit_inv_keep) (simp_all add: update_cash_def)

lemma audit_inv_upsert: "audit_inv c \<Longrightarrow> audit_inv (upsert_position pid s e q a c)"
  unfolding upsert_position_def
  by (intro audit_inv_commit audit_inv_keep) simp_all

lemma audit_inv_delete: "audit_inv c \<Longrightarrow> audit_inv (delete_position pid s e c)"
  unfolding delete_position_def
  by (intro audit_inv_commit audit_inv_keep) simp_all

lemma audit_inv_apply_position:
  "audit_inv c \<Longrightarrow> audit_inv (snd (apply_position pid s e side q fp fe sl c))"
  by (simp add: apply_position_def Let_def audit_inv_upsert audit_inv_delete)

lemma snd_case_sum_pair:
  "snd (case p of (Inl e, c3) \<Rightarrow> (f e, c3) | (Inr u, c3) \<Rightarrow> (g u, c3)) = snd p"
  by (simp split: prod.splits sum.splits)

lemma confirm_leg_conn:
  "snd (confirm_leg svc oid pid d acc c) = c \<or>
   (\<exists>tr fp fe sl. snd (confirm_leg svc oid pid d acc c) =
      snd (apply_position pid (d_symbol d) (d_exchange d) (d_side d) (d_qty d) fp fe sl
             (execute (\<lambda>s. s\<lparr>sim_trades := sim_trades s @ [tr]\<rparr>) (snd (uuid4 c)))))"
proof (cases "latest_close (cur c) (d_symbol d) (d_exchange d)")
  case None
  then show ?thesis by (simp add: confirm_leg_def)
next
  case (Some base)
  then show ?thesis
    by (simp add: confirm_leg_def Let_def uuid4_def snd_case_sum_pair) blast
qed

lemma audit_inv_confirm_leg:
  assumes "audit_inv c"
  shows "audit_inv (snd (confirm_leg svc oid pid d acc c))"
proof -
  have "audit_inv (execute (\<lambda>s. s\<lparr>sim_trades := sim_trades s @ [tr]\<rparr>) (snd (uuid4 c)))" for tr
    by (intro audit_inv_keep audit_inv_uuid4 assms) simp_all
  from audit_inv_apply_position [OF this] confirm_leg_conn [of svc oid pid d acc c] assms
  show ?thesis by auto
qed

lemma audit_inv_confirm_legs:
  "audit_inv c \<Longrightarrow> audit_inv (snd (confirm_legs svc oid pid ds acc c))"
proof (induction ds arbitrary: acc c)
  case Nil
  then show ?case by simp
next
  case (Cons d ds)
  from audit_inv_confirm_leg [OF Cons.prems, of svc oid pid d acc]
  show ?case
    by (cases "confirm_leg svc oid pid d acc c") (auto split: sum.splits intro: Cons.IH)
qed

lemma audit_inv_confirm:
  assumes inv: "audit_inv c"
  shows "audit_inv (snd (confirm svc pid draft_rows rid c))"
    and "fst (confirm svc pid draft_rows rid c) = Inr r \<Longrightarrow>
         r_order_id r \<in> order_id ` set (sim_orders (cur (snd (confirm svc pid draft_rows rid c))))"
proof -
  let ?X = "confirm svc pid draft_rows rid c"
  have "audit_inv (snd ?X) \<and>
        (fst ?X = Inr r \<longrightarrow> r_order_id r \<in> order_id ` set (sim_orders (cur (snd ?X))))"
  proof (cases "draft_rows \<noteq> [] \<and> (\<exists>row cash. map_of (risk_check_results (cur c)) rid = Some row \<and>
        rc_status row \<noteq> ''FAIL'' \<and> get_cash c pid = Inr cash)")
    case False
    then have "snd ?X = c" "isl (fst ?X)"
      by (auto simp: confirm_def split: option.splits sum.splits)
    with inv show ?thesis by auto
  next
    case True
    then obtain row cash where pre: "draft_rows \<noteq> []"
      "map_of (risk_check_results (cur c)) rid = Some row" "rc_status row \<noteq> ''FAIL''"
      "get_cash c pid = Inr cash"
      by blast
    define L where "L = confirm_legs svc (uuid_next c) pid draft_rows (fill_acc0 cash) (snd (uuid4 c))"
    have invL: "audit_inv (snd L)"
      unfolding L_def by (intro audit_inv_confirm_legs audit_inv_uuid4 inv)
    show ?thesis
    proof (cases "fst L")
      case (Inl e)
      then have "?X = (Inl e, rollback (snd L))"
        using pre by (cases L) (simp add: confirm_def uuid4_def L_def)
      with invL show ?thesis by (simp add: audit_inv_rollback)
    next
      case (Inr acc)
      define ord where "ord = \<lparr>order_id = uuid_next c, o_portfolio_id = pid, o_status = ''FILLED'',
          draft_ids = map draft_id draft_rows, filled_qty = filled_qty_total acc,
          avg_fill_price = (if filled_qty_total acc \<noteq> 0
             then Some (fill_value_total acc / real_of_int (filled_qty_total acc)) else None),
          fee_total = total_fee acc, slippage_total = total_slip acc\<rparr>"
      define c3 where "c3 = execute (\<lambda>s. s\<lparr>sim_orders := sim_orders s @ [ord]\<rparr>) (snd L)"
      from Inr have X: "snd ?X = commit (set_cash pid (acc_cash acc) c3)"
        and R: "\<And>r. fst ?X = Inr r \<Longrightarrow> r_order_id r = uuid_next c"
        using pre by (cases L; auto simp: confirm_def uuid4_def L_def Let_def c3_def ord_def)+
      have "audit_inv c3"
        unfolding c3_def by (intro audit_inv_keep invL) auto
      then have "audit_inv (snd ?X)"
        unfolding X by (intro audit_inv_commit audit_inv_set_cash)
      moreover have "uuid_next c \<in> order_id ` set (sim_orders (cur (snd ?X)))"
        unfolding X
        by (simp add: commit_def set_cash_def execute_def update_cash_def c3_def ord_def)
      ultimately show ?thesis using R by auto
    qed
  qed
  then show "audit_inv (snd ?X)"
    and "fst ?X = Inr r \<Longrightarrow> r_order_id r \<in> order_id ` set (sim_orders (cur (snd ?X)))"
    by simp_all
qed

lemma audit_inv_log:
  assumes "audit_inv c" and "eid \<in> order_id ` set (sim_orders (cur c))"
  shows "audit_inv (snd (AuditLogger_log who act etype eid c))"
proof -
  have "audit_inv (execute (\<lambda>s. s\<lparr>audit_log := audit_log s @ [row]\<rparr>) (snd (uuid4 c)))"
    if "entity_id row = eid" for row
  proof (rule audit_inv_execute)
    show "audit_inv (snd (uuid4 c))" by (rule audit_inv_uuid4 [OF assms(1)])
    from assms(1) have "audited_order_committed (cur c)" by (simp add: audit_inv_def)
    with assms(2) that
    show "audited_order_committed ((cur (snd (uuid4 c)))\<lparr>audit_log := audit_log (cur (snd (uuid4 c))) @ [row]\<rparr>)"
      by (simp add: audited_order_committed_def uuid4_def)
  qed
  then show ?thesis
    by (simp add: AuditLogger_log_def Let_def uuid4_def audit_inv_commit)
qed

text \<open>
  Claim C2, as the code has it. The handler writes the audit row in a transaction of
  its own, after \<^verbatim>\<open>confirm\<close> has committed. In every state the handler commits,
  each \<^verbatim>\<open>sim.confirm\<close> audit row names an order whose row is committed in that
  state: no audit without effect.
\<close>

theorem sim_confirm_no_audit_without_order:
  assumes "audited_order_committed d"
  shows "list_all audited_order_committed (snapshots (snd (sim_confirm svc ids riskcheck_id (connect d n))))"
proof -
  let ?c = "connect d n"
  have inv: "audit_inv ?c"
    using assms by (simp add: audit_inv_def connect_def)
  have "audit_inv (snd (sim_confirm svc ids riskcheck_id ?c))"
  proof (cases riskcheck_id)
    case None
    with inv show ?thesis by (simp add: sim_confirm_def)
  next
    case (Some rid)
    define drafts where "drafts = get_many ?c ids"
    define X where "X = confirm svc (d_portfolio_id (hd drafts)) drafts rid ?c"
    have invX: "audit_inv (snd X)"
      unfolding X_def by (rule audit_inv_confirm(1) [OF inv])
    have "audit_inv (snd (AuditLogger_log ''user'' ''sim.confirm'' ''sim_order'' (r_order_id r) (snd X)))"
      if "fst X = Inr r" for r
      using audit_inv_confirm(2) [OF inv, of svc "d_portfolio_id (hd drafts)" drafts rid r] that invX
      by (auto simp: X_def intro: audit_inv_log)
    with invX inv Some show ?thesis
      unfolding sim_confirm_def conn_close_def
      by (cases X)
        (auto simp: Let_def drafts_def [symmetric] X_def [symmetric] audit_inv_rollback
          split: sum.splits error.splits)
  qed
  then show ?thesis by (simp add: audit_inv_def)
qed

lemmas api_defs = sim_confirm_def get_many_def AuditLogger_log_def conn_close_def

text \<open>
  The theorem at work: confirming draft 8 commits four times (the leg's position,
  the cash with the order row, the end of \<^verbatim>\<open>confirm\<close>, the audit row), and the
  last state holds the audit row of order 100.
\<close>

theorem sim_confirm_no_audit_without_order_witness:
  "audited_order_committed ex_db \<and>
   list_all audited_order_committed
     (snapshots (snd (sim_confirm default_sim [8] (Some 10) (connect ex_db 100)))) \<and>
   length (snapshots (snd (sim_confirm default_sim [8] (Some 10) (connect ex_db 100)))) = 4 \<and>
   map entity_id (audit_log (committed (snd (sim_confirm default_sim [8] (Some 10) (connect ex_db 100)))))
     = [100]"
proof -
  have a: "audited_order_committed ex_db"
    by (simp add: ex_defs audited_order_committed_def)
  have "length (snapshots (snd (sim_confirm default_sim [8] (Some 10) (connect ex_db 100)))) = 4 \<and>
   map entity_id (audit_log (committed (snd (sim_confirm default_sim [8] (Some 10) (connect ex_db 100)))))
     = [100]"
    by (simp add: ex_defs run_defs api_defs)
  with a sim_confirm_no_audit_without_order [OF a, of default_sim "[8]" "Some 10" 100]
  show ?thesis by simp
qed

text \<open>
  The other half fails: the second state committed while draft 8 is confirmed holds
  the order row and the new cash balance and no audit row; the audit row is there
  only from the fourth commit on.
\<close>

theorem sim_confirm_order_without_audit_counterexample:
  "map order_id (sim_orders (snapshots (snd (sim_confirm default_sim [8] (Some 10) (connect ex_db 100))) ! 1))
     = [100] \<and>
   portfolio_accounts (snapshots (snd (sim_confirm default_sim [8] (Some 10) (connect ex_db 100))) ! 1)
     = [(1, 399920)] \<and>
   audit_log (snapshots (snd (sim_confirm default_sim [8] (Some 10) (connect ex_db 100))) ! 1) = [] \<and>
   map entity_id
     (audit_log (snapshots (snd (sim_confirm default_sim [8] (Some 10) (connect ex_db 100))) ! 3))
     = [100]"
  by (simp add: ex_defs run_defs api_defs)

subsection \<open>Plan versions\<close>

lemma fold_max_upto: "0 < k \<Longrightarrow> (case [1..k] of [] \<Rightarrow> 0 | v # vs \<Rightarrow> fold max vs v) = k"
proof -
  assume k: "0 < k"
  then have ne: "[1..k] \<noteq> []" by simp
  then obtain v vs where e: "[1..k] = v # vs" by (cases "[1..k]") auto
  have "fold max vs v = Max (set (v # vs))" by (rule Max.set_eq_fold [symmetric])
  also have "\<dots> = Max {1..k}" using e by (metis set_upto)
  also have "\<dots> = k" using k by (intro Max_eqI) auto
  finally show ?thesis by (simp add: e)
qed

lemma next_version_upto:
  assumes "versions_of (cur c) smb exch = [1..k]" and "0 \<le> k"
  shows "next_version c smb exch = k + 1"
proof (cases "k = 0")
  case True
  with assms show ?thesis by (simp add: next_version_def versions_of_def)
next
  case False
  with assms(2) have "0 < k" by simp
  from fold_max_upto [OF this] assms(1) show ?thesis
    by (simp add: next_version_def versions_of_def)
qed

lemma create_versions:
  assumes "versions_of (cur c) smb exch = [1..k]" and "0 \<le> k"
  shows "versions_of (cur (snd (create smb exch c))) smb' exch' =
         (if smb' = smb \<and> exch' = exch then [1..k + 1] else versions_of (cur c) smb' exch')"
    and "committed (snd (create smb exch c)) = cur (snd (create smb exch c))"
proof -
  have nv: "next_version (snd (uuid4 c)) smb exch = k + 1"
    by (rule next_version_upto) (simp_all add: uuid4_def assms)
  have up: "[1..k + 1] = [1..k] @ [k + 1]"
    using assms(2) by (simp add: upto_rec2)
  show "versions_of (cur (snd (create smb exch c))) smb' exch' =
         (if smb' = smb \<and> exch' = exch then [1..k + 1] else versions_of (cur c) smb' exch')"
    using nv assms(1) up
    by (auto simp: create_def Let_def uuid4_def commit_def execute_def versions_of_def plans_of_def)
  show "committed (snd (create smb exch c)) = cur (snd (create smb exch c))"
    by (simp add: create_def Let_def uuid4_def commit_def execute_def)
qed

text \<open>In any state, the next version exceeds every version stored for the instrument.\<close>

lemma next_version_greater:
  "p \<in> set (plans_of (cur c) smb exch) \<Longrightarrow> plan_version p < next_version c smb exch"
proof -
  assume p: "p \<in> set (plans_of (cur c) smb exch)"
  define xs where "xs = map plan_version (plans_of (cur c) smb exch)"
  from p have m: "plan_version p \<in> set xs" by (simp add: xs_def)
  then obtain v vs where e: "xs = v # vs" by (cases xs) auto
  have "fold max vs v = Max (set (v # vs))" by (rule Max.set_eq_fold [symmetric])
  moreover have "plan_version p \<le> Max (set (v # vs))"
    using m e by (intro Max_ge) auto
  ultimately show ?thesis
    by (simp add: next_version_def xs_def [symmetric] e)
qed

lemma create_all_versions:
  assumes "\<And>s e. versions_of (cur c) s e = [1..K s e] \<and> 0 \<le> K s e"
  shows "versions_of (cur (create_all reqs c)) smb exch =
         [1..K smb exch + int (length (filter (\<lambda>r. r = (smb, exch)) reqs))]"
  using assms
proof (induction reqs arbitrary: c K)
  case Nil
  then show ?case by simp
next
  case (Cons r rs)
  obtain s0 e0 where r: "r = (s0, e0)" by (cases r)
  define K' where "K' = (\<lambda>s e. if s = s0 \<and> e = e0 then K s e + 1 else K s e)"
  have pre: "versions_of (cur c) s0 e0 = [1..K s0 e0]" "0 \<le> K s0 e0"
    using Cons.prems by simp_all
  have "versions_of (cur (snd (create s0 e0 c))) s e = [1..K' s e] \<and> 0 \<le> K' s e" for s e
    using create_versions(1) [OF pre, of s e] Cons.prems [of s e] pre(2) by (auto simp: K'_def)
  from Cons.IH [OF this] show ?case
    by (auto simp: r K'_def add.assoc)
qed

lemma create_all_committed:
  "committed c = cur c \<Longrightarrow> committed (create_all reqs c) = cur (create_all reqs c)"
proof (induction reqs arbitrary: c)
  case Nil
  then show ?case by simp
next
  case (Cons r rs)
  obtain s0 e0 where r: "r = (s0, e0)" by (cases r)
  have "committed (snd (create s0 e0 c)) = cur (snd (create s0 e0 c))"
    by (simp add: create_def Let_def uuid4_def commit_def execute_def)
  from Cons.IH [OF this] show ?case by (simp add: r)
qed

text \<open>
  Claim C8. Starting from an empty plan table, after any sequence of
  \<^verbatim>\<open>create\<close> calls the versions stored for an instrument are, in creation order,
  1, 2, ..., k, where k is the number of plans created for it: the first plan has
  version 1 and each later one a version greater than all before it.
\<close>

theorem plan_versions_count_up:
  assumes "trade_plans d = []"
  shows "versions_of (committed (create_all reqs (connect d n))) smb exch =
         [1..int (length (filter (\<lambda>r. r = (smb, exch)) reqs))]"
proof -
  have "versions_of (cur (connect d n)) s e = [1..0] \<and> (0::int) \<le> 0" for s e
    using assms by (simp add: versions_of_def plans_of_def connect_def)
  from create_all_versions [of "connect d n" "\<lambda>s e. 0", OF this]
  have "versions_of (cur (create_all reqs (connect d n))) smb exch =
         [1..int (length (filter (\<lambda>r. r = (smb, exch)) reqs))]"
    by simp
  moreover have "committed (create_all reqs (connect d n)) = cur (create_all reqs (connect d n))"
    by (rule create_all_committed) (simp add: connect_def)
  ultimately show ?thesis by simp
qed

text \<open>
  The theorem at work: plans for 600519.SSE, 000001.SZSE and 600519.SSE again give
  600519.SSE the versions 1 and 2.
\<close>

theorem plan_versions_count_up_witness:
  "trade_plans ex_db = [] \<and>
   versions_of (committed (create_all
      [(''600519'', ''SSE''), (''000001'', ''SZSE''), (''600519'', ''SSE'')] (connect ex_db 100)))
      ''600519'' ''SSE'' = [1, 2]"
proof -
  have e: "trade_plans ex_db = []" by (simp add: ex_db_def)
  have "[1..int (length (filter (\<lambda>r. r = (''600519'', ''SSE''))
      [(''600519'', ''SSE''), (''000001'', ''SZSE''), (''600519'', ''SSE'')]))] = [1, 2]"
    by (simp add: upto.simps)
  with plan_versions_count_up [OF e, of
      "[(''600519'', ''SSE''), (''000001'', ''SZSE''), (''600519'', ''SSE'')]" 100 "''600519''" "''SSE''"] e
  show ?thesis by simp
qed

subsection \<open>Scoring\<close>







lemma length_list_bars:
  "length (list_bars c smb exch a limit) = min limit (length (bars_of (cur c) smb exch a))"
  by (simp add: list_bars_def min.commute)


lemma calc_iff:
  "calc c smb exch a =
     (if length (bars_of (cur c) smb exch a) < 60
      then Inl (ValueError ''not enough bars; ingest more history'')
      else Inr (score_bars (list_bars c smb exch a 120)))"
  by (auto simp: calc_def Let_def length_list_bars)

text \<open>
  Claim C7. With a symbol and an exchange in the request, the handler answers
  DATA_NOT_READY with HTTP status 409 exactly when fewer than 60 bars are stored for
  the zero-padded symbol, the exchange and the adjustment (RAW when none is given);
  with 60 bars or more it answers with the score computed from the newest 120.
\<close>

theorem scores_calc_data_not_ready:
  assumes "symbol \<noteq> []" and "exchange \<noteq> []"
  shows "fst (scores_calc (Some symbol) (Some exchange) adj_opt c) =
           (if length (bars_of (cur c) (zfill 6 symbol) exchange (or_default adj_opt ''RAW'')) < 60
            then ApiErr ''DATA_NOT_READY'' ''not enough bars; ingest more history'' 409
            else ApiOk \<lparr>p_score_id = uuid_next c,
                   p_result = score_bars
                     (list_bars c (zfill 6 symbol) exchange (or_default adj_opt ''RAW'') 120),
                   p_ruleset_version = ''score/tech_v1''\<rparr>)"
  using assms
  by (simp add: scores_calc_def Let_def or_default_def calc_and_persist_def calc_iff
      ScoresRepo_insert_def uuid4_def RULESET_VERSION_def)

lemma ex_history_bars:
  "bars_of (cur (connect (ex_db\<lparr>bars_daily := ex_history n\<rparr>) 100)) ''600519'' ''SSE'' ''RAW''
   = ex_history n"
  by (simp add: bars_of_def ex_history_def connect_def filter_map o_def)

text \<open>The theorem at work: 59 stored bars give the 409, 60 stored bars give a score.\<close>

theorem scores_calc_data_not_ready_witness:
  "fst (scores_calc (Some ''600519'') (Some ''SSE'') None
          (connect (ex_db\<lparr>bars_daily := ex_history 59\<rparr>) 100))
     = ApiErr ''DATA_NOT_READY'' ''not enough bars; ingest more history'' 409 \<and>
   is_ok (fst (scores_calc (Some ''600519'') (Some ''SSE'') None
          (connect (ex_db\<lparr>bars_daily := ex_history 60\<rparr>) 100)))"
proof -
  have z: "zfill 6 ''600519'' = ''600519''" "or_default None ''RAW'' = ''RAW''"
    by (simp_all add: zfill_def or_default_def)
  have l: "length (ex_history n) = n" for n
    by (simp add: ex_history_def)
  have ne: "''600519'' \<noteq> []" "''SSE'' \<noteq> []" by simp_all
  from scores_calc_data_not_ready [OF ne, of None "connect (ex_db\<lparr>bars_daily := ex_history 59\<rparr>) 100"]
    scores_calc_data_not_ready [OF ne, of None "connect (ex_db\<lparr>bars_daily := ex_history 60\<rparr>) 100"]
  show ?thesis
    by (simp add: z ex_history_bars l)
qed







subsection \<open>Rebalance planner\<close>

lemma zfill_nonempty: "0 < w \<Longrightarrow> zfill w s \<noteq> []"
  by (cases s) (auto simp: zfill_def)

lemma lot_multiple_positive:
  assumes "0 < lot" and "0 < px" and "px * real_of_int lot \<le> x"
  shows "0 < (py_int (x / px) div lot) * lot"
proof -
  from assms have "real_of_int lot \<le> x / px"
    by (simp add: pos_le_divide_eq mult.commute)
  then have "lot \<le> \<lfloor>x / px\<rfloor>" by (simp add: le_floor_iff)
  moreover from assms have "0 \<le> x / px"
    by (meson divide_nonneg_pos less_eq_real_def mult_pos_pos of_int_0_less_iff order_trans)
  ultimately have "lot \<le> py_int (x / px)" by (simp add: py_int_def)
  with assms(1) have "0 < py_int (x / px) div lot"
    by (simp add: pos_imp_zdiv_pos_iff)
  with assms(1) show ?thesis by simp
qed

text \<open>
  Claim C5, as the code has it. For one target with a positive weight, no positions,
  a known positive price and a positive lot size, the investable amount is
  cash * (1 - reserve); below one lot's value the order list is empty, otherwise it
  is one BUY of floor(investable / price) rounded down to a multiple of the lot size.
\<close>

theorem suggest_single_target:
  assumes cash: "get_cash c pid = Inr cash"
    and nopos: "position_rows (cur c) pid = []"
    and px: "latest_close (cur c) (zfill 6 smb) exch = Some px" and pos: "0 < px"
    and exch: "exch \<noteq> []" and w: "0 < w" and lot: "0 < rb_lot_size svc"
  shows "\<not> isl (suggest svc c pid [\<lparr>tg_symbol = Some smb, tg_exchange = Some exch, tg_weight = Some w\<rparr>] ratio) \<and>
         rr_orders (projr (suggest svc c pid
            [\<lparr>tg_symbol = Some smb, tg_exchange = Some exch, tg_weight = Some w\<rparr>] ratio)) =
         (if cash * (1 - ratio) < px * real_of_int (rb_lot_size svc) then []
          else [\<lparr>ro_symbol = zfill 6 smb, ro_exchange = exch, ro_side = ''BUY'',
                 ro_qty = (\<lfloor>cash * (1 - ratio) / px\<rfloor> div rb_lot_size svc) * rb_lot_size svc,
                 ro_price = px,
                 estimated_value =
                   real_of_int ((\<lfloor>cash * (1 - ratio) / px\<rfloor> div rb_lot_size svc) * rb_lot_size svc) * px\<rparr>])"
proof -
  define inv where "inv = cash * (1 - ratio)"
  have z: "zfill 6 (or_default (Some smb) []) \<noteq> []"
    by (rule zfill_nonempty) simp
  have e: "or_default (Some exch) [] = exch"
    using exch by (simp add: or_default_def)
  have zz: "zfill 6 (or_default (Some smb) []) = zfill 6 smb"
    by (cases smb) (simp_all add: or_default_def)
  have cl: "clean_targets [\<lparr>tg_symbol = Some smb, tg_exchange = Some exch, tg_weight = Some w\<rparr>] ([], 0)
            = ([(zfill 6 smb, exch, w)], w)"
    using z exch w by (simp add: Let_def e zz)
  have pt: "plan_target svc (cur c) inv Map.empty (zfill 6 smb, exch, 1)
              \<lparr>ps_px_map = Map.empty, ps_missing = [], ps_orders = [], ps_cash_after = cash\<rparr> =
            Inr (if inv < px * real_of_int (rb_lot_size svc)
                 then \<lparr>ps_px_map = [(zfill 6 smb, exch) \<mapsto> px], ps_missing = [], ps_orders = [],
                       ps_cash_after = cash\<rparr>
                 else \<lparr>ps_px_map = [(zfill 6 smb, exch) \<mapsto> px], ps_missing = [],
                       ps_orders = [\<lparr>ro_symbol = zfill 6 smb, ro_exchange = exch, ro_side = ''BUY'',
                          ro_qty = (\<lfloor>inv / px\<rfloor> div rb_lot_size svc) * rb_lot_size svc,
                          ro_price = px,
                          estimated_value =
                            real_of_int ((\<lfloor>inv / px\<rfloor> div rb_lot_size svc) * rb_lot_size svc) * px\<rparr>],
                       ps_cash_after =
                         cash - real_of_int ((\<lfloor>inv / px\<rfloor> div rb_lot_size svc) * rb_lot_size svc) * px\<rparr>)"
  proof (cases "\<bar>inv\<bar> < px * real_of_int (rb_lot_size svc)")
    case True
    then have "inv < px * real_of_int (rb_lot_size svc)" by simp
    with True show ?thesis using px by (simp add: plan_target_def Let_def)
  next
    case False
    from pos lot have lp: "0 < px * real_of_int (rb_lot_size svc)" by simp
    with False have big: "px * real_of_int (rb_lot_size svc) \<le> \<bar>inv\<bar>" by simp
    show ?thesis
    proof (cases "0 < inv")
      case True
      with big have b: "px * real_of_int (rb_lot_size svc) \<le> inv" by simp
      from lot_multiple_positive [OF lot pos b]
      have q: "0 < (py_int (inv / px) div rb_lot_size svc) * rb_lot_size svc" .
      from True pos have fl: "py_int (inv / px) = \<lfloor>inv / px\<rfloor>"
        by (simp add: py_int_def)
      from q have q': "\<not> (\<lfloor>inv / px\<rfloor> div rb_lot_size svc) * rb_lot_size svc \<le> 0"
        by (simp add: fl)
      from b have nb: "\<not> inv < px * real_of_int (rb_lot_size svc)" by simp
      show ?thesis
        using False True px pos lot q' nb
        by (simp add: plan_target_def Let_def fl)
    next
      case False
      then have le0: "inv \<le> 0" by simp
      from pos lot big le0 have nz: "px \<noteq> 0" "rb_lot_size svc \<noteq> 0" by simp_all
      from le0 lp have lt: "inv < px * real_of_int (rb_lot_size svc)" by simp
      show ?thesis
        using \<open>\<not> \<bar>inv\<bar> < px * real_of_int (rb_lot_size svc)\<close> le0 px nz lt
        by (simp add: plan_target_def Let_def min_def)
    qed
  qed
  show ?thesis
    using cash nopos w pt
    by (simp add: suggest_def cl inv_def [symmetric] Let_def del: clean_targets.simps)
qed

lemmas rb_defs = suggest_def get_cash_def position_rows_def clean_targets.simps zfill_def
  or_default_def plan_target_def latest_close_def bars_of_def default_rebalance_def py_int_def
  price_label_def Let_def ex_target_def ex_db_def ex_bar_def connect_def

text \<open>
  The theorem at work on the specification's scenario (close 1000, lot 100, reserve
  0.05, no positions): cash 10,000 gives no order, cash 210,000 gives one BUY of 100
  shares, since floor(199,500 / 1000) = 199 rounds down to 100.
\<close>

theorem suggest_single_target_witness:
  "\<not> isl (suggest default_rebalance (connect (ex_db\<lparr>portfolio_accounts := [(1, 10000)]\<rparr>) 100) 1
            [ex_target] (5 / 100)) \<and>
   rr_orders (projr (suggest default_rebalance
      (connect (ex_db\<lparr>portfolio_accounts := [(1, 10000)]\<rparr>) 100) 1 [ex_target] (5 / 100))) = [] \<and>
   \<not> isl (suggest default_rebalance (connect (ex_db\<lparr>portfolio_accounts := [(1, 210000)]\<rparr>) 100) 1
            [ex_target] (5 / 100)) \<and>
   rr_orders (projr (suggest default_rebalance
      (connect (ex_db\<lparr>portfolio_accounts := [(1, 210000)]\<rparr>) 100) 1 [ex_target] (5 / 100))) =
     [\<lparr>ro_symbol = ''600519'', ro_exchange = ''SSE'', ro_side = ''BUY'', ro_qty = 100,
       ro_price = 1000, estimated_value = 100000\<rparr>]"
proof -
  have z: "zfill 6 ''600519'' = ''600519''" by (simp add: zfill_def)
  have pre: "get_cash (connect (ex_db\<lparr>portfolio_accounts := [(1, v)]\<rparr>) 100) 1 = Inr v"
    "position_rows (cur (connect (ex_db\<lparr>portfolio_accounts := [(1, v)]\<rparr>) 100)) 1 = []"
    "latest_close (cur (connect (ex_db\<lparr>portfolio_accounts := [(1, v)]\<rparr>) 100))
       (zfill 6 ''600519'') ''SSE'' = Some 1000" for v
    by (simp_all add: z get_cash_def position_rows_def latest_close_def bars_of_def ex_db_def
        ex_bar_def connect_def)
  have rest: "(0::real) < 1000" "''SSE'' \<noteq> []" "(0::real) < 1" "0 < rb_lot_size default_rebalance"
    by (simp_all add: default_rebalance_def)
  have f: "\<lfloor>210000 * (1 - 5 / 100) / (1000::real)\<rfloor> = 199"
    by (simp add: floor_eq_iff)
  from suggest_single_target [OF pre(1) pre(2) pre(3) rest, of 10000 "5 / 100"]
    suggest_single_target [OF pre(1) pre(2) pre(3) rest, of 210000 "5 / 100"]
  show ?thesis
    by (simp add: ex_target_def default_rebalance_def z f)
qed

text \<open>With cash 210,000 the scenario's single order has qty 100, not 200.\<close>

theorem suggest_scenario_qty_counterexample:
  "map ro_qty (rr_orders (projr (suggest default_rebalance
      (connect (ex_db\<lparr>portfolio_accounts := [(1, 210000)]\<rparr>) 100) 1 [ex_target] (5 / 100))))
   = [100]"
  by (simp add: rb_defs)

subsection \<open>Risk engine: the batch-level item\<close>

lemma positions_market_value_missing:
  "snd (positions_market_value d rows (mv, m)) =
   (m \<or> list_ex (\<lambda>(s, e, q). latest_close d s e = None) rows)"
proof (induction rows arbitrary: mv m)
  case Nil
  then show ?case by simp
next
  case (Cons r rows)
  obtain s e q where r: "r = (s, e, q)" by (cases r)
  show ?case
    by (cases "latest_close d s e") (simp_all add: r Cons.IH)
qed

lemma equity_estimate_missing: "snd (equity_estimate c pid cash) = held_without_price (cur c) pid"
  by (simp add: equity_estimate_def held_without_price_def case_prod_beta Let_def
      positions_market_value_missing)

lemma no_item_warn:
  "\<not> has_price_missing_item (ls_items st) \<Longrightarrow> code it \<noteq> ''RISK_PRICE_MISSING_FOR_SOME_POSITIONS'' \<Longrightarrow>
   \<not> has_price_missing_item (ls_items (warn_with it st))"
  by (simp add: has_price_missing_item_def warn_with_def)

lemma no_item_fail:
  "\<not> has_price_missing_item (ls_items st) \<Longrightarrow> code it \<noteq> ''RISK_PRICE_MISSING_FOR_SOME_POSITIONS'' \<Longrightarrow>
   \<not> has_price_missing_item (ls_items (fail_with it st))"
  by (simp add: has_price_missing_item_def fail_with_def)

lemma draft_item_code [simp]: "code (draft_item cd lv d) = cd"
  by (simp add: draft_item_def)

lemma rule_item_codes:
  "check_max_orders_per_day rules clk pid = Some it \<Longrightarrow> code it = ''RISK_MAX_ORDERS_PER_DAY''"
  "check_order_frequency rules clk pid s e = Some it \<Longrightarrow> code it = ''RISK_ORDER_FREQUENCY''"
  "check_daily_trading_value rules clk pid v = Some it \<Longrightarrow> code it = ''RISK_DAILY_VALUE_LIMIT''"
  "check_price_limit d s e side px = Inr (Some it) \<Longrightarrow>
     code it = ''RISK_LIMIT_UP'' \<or> code it = ''RISK_LIMIT_DOWN''"
  by (auto simp: check_max_orders_per_day_def check_order_frequency_def
      check_daily_trading_value_def check_price_limit_def Let_def
      split: if_splits option.splits)

lemma no_item_warn_opt:
  assumes "\<not> has_price_missing_item (ls_items st)"
    and "\<And>it. r = Some it \<Longrightarrow> code it \<noteq> ''RISK_PRICE_MISSING_FOR_SOME_POSITIONS''"
  shows "\<not> has_price_missing_item (ls_items (case r of Some it \<Rightarrow> warn_with it st | None \<Rightarrow> st))"
  using assms by (cases r) (simp_all add: no_item_warn)

lemma no_item_blocks:
  assumes "\<not> has_price_missing_item (ls_items st)"
  shows "\<not> has_price_missing_item (ls_items (deviation_block rules dr latest st))"
    and "\<not> has_price_missing_item (ls_items (frequency_block rules clk pid dr side st))"
    and "\<not> has_price_missing_item (ls_items (daily_value_block rules clk pid side v st))"
    and "\<not> has_price_missing_item (ls_items (order_value_block rules dr v st))"
proof -
  show "\<not> has_price_missing_item (ls_items (deviation_block rules dr latest st))"
    using assms by (simp add: deviation_block_def no_item_warn)
  show "\<not> has_price_missing_item (ls_items (frequency_block rules clk pid dr side st))"
    using assms
    by (cases "check_order_frequency rules clk pid (d_symbol dr) (d_exchange dr)")
      (auto simp: frequency_block_def no_item_warn dest: rule_item_codes(2))
  show "\<not> has_price_missing_item (ls_items (daily_value_block rules clk pid side v st))"
    using assms
    by (cases "check_daily_trading_value rules clk pid v")
      (auto simp: daily_value_block_def no_item_warn dest: rule_item_codes(3))
  show "\<not> has_price_missing_item (ls_items (order_value_block rules dr v st))"
    using assms by (simp add: order_value_block_def Let_def no_item_warn)
qed

lemma no_item_limit_block:
  assumes "\<not> has_price_missing_item (ls_items st)"
    and "check_price_limit d s e side px = Inr limit_check"
  shows "\<not> has_price_missing_item (ls_items (limit_block limit_check st))"
proof (cases limit_check)
  case None
  with assms(1) show ?thesis by (simp add: limit_block_def)
next
  case (Some it)
  with rule_item_codes(4) [of d s e side px it] assms(2)
  have "code it \<noteq> ''RISK_PRICE_MISSING_FOR_SOME_POSITIONS''" by auto
  with assms(1) Some show ?thesis by (simp add: limit_block_def no_item_warn no_item_fail)
qed

lemma no_item_check_order_warnings:
  assumes "check_order_warnings rules clk d pid dr side latest st = Inr st'"
    and "\<not> has_price_missing_item (ls_items st)"
  shows "\<not> has_price_missing_item (ls_items st')"
proof -
  have nz: "\<not> (d_price dr \<noteq> None \<and> latest = 0)"
  proof
    assume "d_price dr \<noteq> None \<and> latest = 0"
    with assms(1) show False by (simp add: check_order_warnings_def Let_def)
  qed
  have "\<not> isl (check_price_limit d (d_symbol dr) (d_exchange dr) side latest)"
  proof
    assume "isl (check_price_limit d (d_symbol dr) (d_exchange dr) side latest)"
    then obtain err where "check_price_limit d (d_symbol dr) (d_exchange dr) side latest = Inl err"
      by (cases "check_price_limit d (d_symbol dr) (d_exchange dr) side latest") auto
    with assms(1) nz show False by (auto simp: check_order_warnings_def Let_def)
  qed
  then obtain limit_check where
    lc: "check_price_limit d (d_symbol dr) (d_exchange dr) side latest = Inr limit_check"
    by (cases "check_price_limit d (d_symbol dr) (d_exchange dr) side latest") auto
  from assms(1) nz lc
  have st': "st' = order_value_block rules dr (order_price_of dr latest * real_of_int (d_qty dr))
        (daily_value_block rules clk pid side (order_price_of dr latest * real_of_int (d_qty dr))
          (limit_block limit_check
            (frequency_block rules clk pid dr side (deviation_block rules dr latest st))))"
    by (auto simp: check_order_warnings_def Let_def)
  show ?thesis
    unfolding st'
    by (intro no_item_blocks no_item_limit_block [OF _ lc] assms(2))
qed

lemma no_item_check_fill:
  assumes "\<not> has_price_missing_item (ls_items st)"
  shows "\<not> has_price_missing_item (ls_items (check_fill rules total_equity dr side latest st))"
proof -
  have k: "\<not> has_price_missing_item (ls_items (st\<lparr>ls_cash_now := a, ls_pos_qty_map := b\<rparr>))" for a b
    using assms by simp
  show ?thesis
    using assms k
    by (simp add: check_fill_def Let_def no_item_fail)
qed

lemma no_item_check_draft:
  assumes "check_draft rules clk d pid total_equity dr st = Inr st'"
    and "\<not> has_price_missing_item (ls_items st)"
  shows "\<not> has_price_missing_item (ls_items st')"
proof -
  have k: "\<not> has_price_missing_item (ls_items (st\<lparr>ls_price_cache := m\<rparr>))" for m
    using assms(2) by simp
  show ?thesis
    using assms k
    by (auto simp: check_draft_def Let_def no_item_fail
        split: if_splits option.splits sum.splits
        dest!: no_item_check_order_warnings intro!: no_item_check_fill)
qed

lemma no_item_check_drafts:
  assumes "check_drafts rules clk d pid total_equity drs st = Inr st'"
    and "\<not> has_price_missing_item (ls_items st)"
  shows "\<not> has_price_missing_item (ls_items st')"
  using assms
proof (induction drs arbitrary: st)
  case Nil
  then show ?case by simp
next
  case (Cons dr drs)
  from Cons.prems(1) obtain st1 where
    a: "check_draft rules clk d pid total_equity dr st = Inr st1"
    and b: "check_drafts rules clk d pid total_equity drs st1 = Inr st'"
    by (auto split: sum.splits)
  from Cons.IH [OF b no_item_check_draft [OF a Cons.prems(2)]] show ?case .
qed

lemma no_item_per_draft_checks:
  assumes "per_draft_checks rules clk draft_rows c = Inr st"
  shows "\<not> has_price_missing_item (ls_items st)"
proof -
  from assms obtain cash st1 where
    st1: "st1 = (case check_max_orders_per_day rules clk (d_portfolio_id (hd draft_rows)) of
                   Some it \<Rightarrow> warn_with it
                     \<lparr>ls_items = [], ls_status = ''PASS'', ls_cash_now = cash,
                      ls_pos_qty_map = map_of (rev (map (\<lambda>(s, e, q). ((s, e), q))
                         (position_rows (cur c) (d_portfolio_id (hd draft_rows))))),
                      ls_price_cache = Map.empty\<rparr>
                 | None \<Rightarrow>
                     \<lparr>ls_items = [], ls_status = ''PASS'', ls_cash_now = cash,
                      ls_pos_qty_map = map_of (rev (map (\<lambda>(s, e, q). ((s, e), q))
                         (position_rows (cur c) (d_portfolio_id (hd draft_rows))))),
                      ls_price_cache = Map.empty\<rparr>)"
    and run: "check_drafts rules clk (cur c) (d_portfolio_id (hd draft_rows))
                (fst (equity_estimate c (d_portfolio_id (hd draft_rows)) cash)) draft_rows st1 = Inr st"
    by (auto simp: per_draft_checks_def Let_def split: sum.splits)
  have "\<not> has_price_missing_item (ls_items st1)"
    unfolding st1 using rule_item_codes(1)
    by (intro no_item_warn_opt) (auto simp: has_price_missing_item_def)
  from no_item_check_drafts [OF run this] show ?thesis .
qed

text \<open>
  Claim C4, as the code has it. When \<^verbatim>\<open>check\<close> returns, the items of the
  persisted risk-check row contain RISK_PRICE_MISSING_FOR_SOME_POSITIONS exactly
  when a held symbol has no latest close and the status after the daily order-count
  check and the per-draft checks is still PASS: the code appends the item under the
  guard \<^verbatim>\<open>price_missing and status == "PASS"\<close>.
\<close>

theorem check_price_missing_item:
  assumes ok: "\<not> isl (fst (check rules clk draft_rows c))"
  shows "has_price_missing_item
           (rc_items (snd (last (risk_check_results
              (committed (snd (check rules clk draft_rows c))))))) =
         (held_without_price (cur c) (d_portfolio_id (hd draft_rows)) \<and>
          ls_status (projr (per_draft_checks rules clk draft_rows c)) = ''PASS'')"
proof -
  let ?pid = "d_portfolio_id (hd draft_rows)"
  from ok have ne: "draft_rows \<noteq> []"
    by (auto simp: check_def)
  from ok ne have same: "\<not> list_ex (\<lambda>d. d_portfolio_id d \<noteq> ?pid) draft_rows"
    by (auto simp: check_def Let_def)
  from ok ne same obtain cash where cash: "get_cash c ?pid = Inr cash"
    by (cases "get_cash c ?pid") (auto simp: check_def Let_def)
  from ok ne same cash obtain st where st: "per_draft_checks rules clk draft_rows c = Inr st"
    by (cases "per_draft_checks rules clk draft_rows c") (auto simp: check_def Let_def)
  have clean: "\<not> has_price_missing_item (ls_items st)"
    by (rule no_item_per_draft_checks [OF st])
  have pm: "has_price_missing_item (ls_items st @ [price_missing_item])"
    by (simp add: has_price_missing_item_def price_missing_item_def)
  show ?thesis
    using clean pm
    by (simp add: check_def Let_def ne same cash st case_prod_beta uuid4_def commit_def
        execute_def equity_estimate_missing)
qed

lemmas risk_defs = check_def per_draft_checks_def equity_estimate_def check_draft_def
  check_order_warnings_def check_fill_def check_price_limit_def check_max_orders_per_day_def
  check_order_frequency_def check_daily_trading_value_def deviation_block_def
  frequency_block_def limit_block_def daily_value_block_def order_value_block_def
  order_price_of_def fail_with_def warn_with_def draft_item_def upper_def upper_char_def
  position_rows_def default_rules_def quiet_clock_def price_missing_item_def
  DEFAULT_RULESET_VERSION_def held_without_price_def has_price_missing_item_def
  ex_held_db_def ex_odd_lot_def

text \<open>
  The theorem at work: portfolio 1 holds 000001.SZSE without a price and buys 100
  shares of 600519.SSE at 1000; every per-draft check passes, and the persisted
  result holds the item.
\<close>

theorem check_price_missing_item_witness:
  "held_without_price (cur (connect ex_held_db 100)) 1 \<and>
   \<not> isl (fst (check default_rules quiet_clock [ex_buy] (connect ex_held_db 100))) \<and>
   ls_status (projr (per_draft_checks default_rules quiet_clock [ex_buy] (connect ex_held_db 100)))
     = ''PASS'' \<and>
   has_price_missing_item
     (rc_items (snd (last (risk_check_results
        (committed (snd (check default_rules quiet_clock [ex_buy] (connect ex_held_db 100))))))))"
proof -
  have h: "held_without_price (cur (connect ex_held_db 100)) 1"
    by (simp add: risk_defs ex_defs latest_close_def bars_of_def)
  have ok: "\<not> isl (fst (check default_rules quiet_clock [ex_buy] (connect ex_held_db 100)))"
    by (simp add: risk_defs ex_defs get_cash_def latest_close_def bars_of_def uuid4_def
        commit_def execute_def Let_def)
  have p: "ls_status (projr (per_draft_checks default_rules quiet_clock [ex_buy]
             (connect ex_held_db 100))) = ''PASS''"
    by (simp add: risk_defs ex_defs get_cash_def latest_close_def bars_of_def Let_def)
  have pid: "d_portfolio_id (hd [ex_buy]) = 1"
    by (simp add: ex_buy_def)
  from check_price_missing_item [OF ok] h p pid ok show ?thesis
    by simp
qed

text \<open>
  With the same holding and a draft of 50 shares, the per-draft verdict is FAIL
  (RISK_INVALID_QTY) and the persisted result holds that item only.
\<close>

theorem check_price_missing_item_counterexample:
  "held_without_price (cur (connect ex_held_db 100)) 1 \<and>
   \<not> isl (fst (check default_rules quiet_clock [ex_odd_lot] (connect ex_held_db 100))) \<and>
   map code (rc_items (snd (last (risk_check_results
        (committed (snd (check default_rules quiet_clock [ex_odd_lot] (connect ex_held_db 100))))))))
     = [''RISK_INVALID_QTY''] \<and>
   rc_status (snd (last (risk_check_results
        (committed (snd (check default_rules quiet_clock [ex_odd_lot] (connect ex_held_db 100)))))))
     = ''FAIL''"
  by (simp add: risk_defs ex_defs get_cash_def latest_close_def bars_of_def uuid4_def
      commit_def execute_def Let_def)

end
